(* ===== verification/Prelude.thy ===== *)
theory Prelude
  imports Complex_Main "HOL-Library.Sublist"
begin

text \<open>
  Shared vocabulary of the development. The program
  (\<^verbatim>\<open>src/ArtilleryMaster_Build2/ArtilleryMaster_Build2.cpp\<close>) works on
  single-precision floats and SFML vectors. Here a float is a \<^typ>\<open>real\<close>
  (rounding is not modelled), \<^verbatim>\<open>sf::Vector2f\<close> is a pair of reals and
  \<^verbatim>\<open>sf::Vector2i\<close> a pair of integers. Each float literal of the source
  is the exact rational value that the literal has as a float, so
  \<^verbatim>\<open>3.14159265f\<close> is \<open>13176795 / 4194304\<close> and not \<open>pi\<close>. The theory
  also holds the facts about \<open>sqrt\<close> and \<open>arctan\<close> that the solver's
  proofs share.
\<close>

named_theorems fval_simps "evaluation rules of the IEEE special values"
named_theorems float_lits "signs of the single-precision literals"

type_synonym vec2f = "real \<times> real"
type_synonym vec2i = "int \<times> int"

text \<open>\<^verbatim>\<open>sf::Vector2f\<close>'s \<^verbatim>\<open>operator+\<close> and \<^verbatim>\<open>operator-\<close>.\<close>

definition vadd :: "vec2f \<Rightarrow> vec2f \<Rightarrow> vec2f" where
  "vadd a b = (fst a + fst b, snd a + snd b)"

definition vsub :: "vec2f \<Rightarrow> vec2f \<Rightarrow> vec2f" where
  "vsub a b = (fst a - fst b, snd a - snd b)"

subsection \<open>The float literals of the source\<close>

definition PI_F :: real where
  "PI_F = 13176795 / 4194304"  \<comment> \<open>\<^verbatim>\<open>3.14159265f\<close>\<close>

definition GRAVITY_F :: real where
  "GRAVITY_F = 10286531 / 1048576"  \<comment> \<open>\<^verbatim>\<open>9.81f\<close>\<close>

definition ZOOM_IN_F :: real where
  "ZOOM_IN_F = 7549747 / 8388608"  \<comment> \<open>\<^verbatim>\<open>0.9f\<close>\<close>

definition ZOOM_OUT_F :: real where
  "ZOOM_OUT_F = 9227469 / 8388608"  \<comment> \<open>\<^verbatim>\<open>1.1f\<close>\<close>

definition VELOCITY_INIT :: real where
  "VELOCITY_INIT = 300"  \<comment> \<open>\<^verbatim>\<open>float velocity = 300.0f\<close>\<close>

lemma vadd_vsub_cancel [simp]: "vadd a (vsub b a) = b"
  by (simp add: vadd_def vsub_def)

lemma PI_F_pos [float_lits, simp]: "0 < PI_F"
  by (simp add: PI_F_def)

lemma PI_F_ge_0 [float_lits, simp]: "0 \<le> PI_F"
  by (simp add: PI_F_def)

lemma PI_F_neq_0 [float_lits, simp]: "PI_F \<noteq> 0"
  by (simp add: PI_F_def)

lemma GRAVITY_F_pos [float_lits, simp]: "0 < GRAVITY_F"
  by (simp add: GRAVITY_F_def)

lemma GRAVITY_F_neq_0 [float_lits, simp]: "GRAVITY_F \<noteq> 0"
  by (simp add: GRAVITY_F_def)

lemma ZOOM_IN_F_pos [float_lits, simp]: "0 < ZOOM_IN_F"
  by (simp add: ZOOM_IN_F_def)

lemma ZOOM_OUT_F_pos [float_lits, simp]: "0 < ZOOM_OUT_F"
  by (simp add: ZOOM_OUT_F_def)

text \<open>The radian-to-degree scaling \<open>x * 180 / PI_F\<close> of the code is monotone.\<close>

lemma deg_scale_less_iff [simp]: "x * 180 / PI_F < y * 180 / PI_F \<longleftrightarrow> x < y"
  by (simp add: divide_less_cancel PI_F_def)

lemma deg_scale_le_iff [simp]: "x * 180 / PI_F \<le> y * 180 / PI_F \<longleftrightarrow> x \<le> y"
  by (simp add: divide_le_cancel PI_F_def)

lemma zoom_factors_not_inverse: "ZOOM_IN_F * ZOOM_OUT_F < 1"
  by (simp add: ZOOM_IN_F_def ZOOM_OUT_F_def)

subsection \<open>Square roots and the arctangent\<close>

lemma mult_self_pos: "x \<noteq> 0 \<Longrightarrow> 0 < x * (x::real)"
  by (metis not_real_square_gt_zero)

lemma one_plus_sq_pos [simp]: "0 < 1 + (t::real)\<^sup>2"
  by (simp add: add_pos_nonneg)

lemma one_plus_sq_neq_0 [simp]: "1 + (t::real)\<^sup>2 \<noteq> 0"
  using one_plus_sq_pos [of t] by linarith

lemma sqrt_one_plus_sq_pos [simp]: "0 < sqrt (1 + t\<^sup>2)"
  by simp

lemma sqrt_cos_arctan: "sqrt (1 + t\<^sup>2) * cos (arctan t) = 1"
  using sqrt_one_plus_sq_pos [of t] by (simp add: cos_arctan)

lemma sqrt_sin_arctan: "sqrt (1 + t\<^sup>2) * sin (arctan t) = t"
  using sqrt_one_plus_sq_pos [of t] by (simp add: sin_arctan)

lemma cos_arctan_pos [simp]: "0 < cos (arctan t)"
  by (simp add: cos_arctan)

lemma hypot_factor:
  assumes "x \<noteq> 0"
  shows "sqrt (x\<^sup>2 + y\<^sup>2) = \<bar>x\<bar> * sqrt (1 + (y / x)\<^sup>2)"
proof -
  have "x\<^sup>2 + y\<^sup>2 = x\<^sup>2 * (1 + (y / x)\<^sup>2)"
    using assms by (simp add: field_simps power2_eq_square)
  then show ?thesis by (simp add: real_sqrt_mult)
qed

lemma sqrt_fourth_power [simp]: "sqrt (v * v * (v * v)) = v * (v::real)"
  by (simp add: real_sqrt_abs2)

lemma arctan_plus_arctan_inverse: "0 < x \<Longrightarrow> arctan x + arctan (1 / x) = pi / 2"
  by (simp add: arctan_inverse)

lemma sqrt_square_sum_eq_0_iff [simp]: "sqrt (x\<^sup>2 + y\<^sup>2) = 0 \<longleftrightarrow> x = 0 \<and> y = (0::real)"
  by (simp add: add_nonneg_eq_0_iff)

end
