(* ===== verification/FloatVal.thy ===== *)
theory FloatVal
  imports Prelude
begin

text \<open>
  The IEEE 754 special values that the solver can produce. HOL's division is
  total with \<open>x / 0 = 0\<close>, which is not what \<^verbatim>\<open>float\<close> division does:
  a positive number over zero is \<open>+inf\<close>, zero over zero is NaN, and NaN
  propagates through \<^verbatim>\<open>atan\<close>, \<^verbatim>\<open>cos\<close> and the arithmetic. A value of
  \<open>fval\<close> is a finite real, a signed infinity (\<open>Infty True\<close> is \<open>+inf\<close>) or
  NaN. Zeros are positive zeros: every zero divisor of the source
  (\<open>g * dist\<close> with \<open>dist = hypot(..) \<ge> +0\<close>, and \<open>velocity * cos(..)\<close>
  with the velocity entered as 0) is \<open>+0\<close>. Rounding and overflow are not
  modelled.
\<close>

datatype fval = Fin real | Infty bool | NaN

abbreviation PInf :: fval where "PInf \<equiv> Infty True"
abbreviation NInf :: fval where "NInf \<equiv> Infty False"

fun fmul :: "fval \<Rightarrow> fval \<Rightarrow> fval" where
  "fmul (Fin x) (Fin y) = Fin (x * y)"
| "fmul NaN _ = NaN"
| "fmul _ NaN = NaN"
| "fmul (Fin x) (Infty s) = (if x = 0 then NaN else Infty (s = (0 < x)))"
| "fmul (Infty s) (Fin y) = (if y = 0 then NaN else Infty (s = (0 < y)))"
| "fmul (Infty s) (Infty t) = Infty (s = t)"

fun fdiv :: "fval \<Rightarrow> fval \<Rightarrow> fval" where
  "fdiv (Fin x) (Fin y) =
     (if y \<noteq> 0 then Fin (x / y) else if x = 0 then NaN else Infty (0 < x))"
| "fdiv NaN _ = NaN"
| "fdiv _ NaN = NaN"
| "fdiv (Fin x) (Infty s) = Fin 0"
| "fdiv (Infty s) (Fin y) = (if y = 0 then Infty s else Infty (s = (0 < y)))"
| "fdiv (Infty s) (Infty t) = NaN"

text \<open>\<^verbatim>\<open>std::atan\<close>: \<open>atan(\<plusminus>inf) = \<plusminus>pi/2\<close>, \<open>atan(NaN) = NaN\<close>.\<close>

fun fatan :: "fval \<Rightarrow> fval" where
  "fatan (Fin x) = Fin (arctan x)"
| "fatan (Infty s) = Fin (if s then pi / 2 else - (pi / 2))"
| "fatan NaN = NaN"

text \<open>\<^verbatim>\<open>std::cos\<close>: the cosine of an infinity is NaN.\<close>

fun fcos :: "fval \<Rightarrow> fval" where
  "fcos (Fin x) = Fin (cos x)"
| "fcos (Infty s) = NaN"
| "fcos NaN = NaN"

text \<open>
  Scaling by a finite nonzero constant, as the degree/radian conversions of
  the source do (\<^verbatim>\<open>angle * 180.0f / 3.14159265f\<close>), keeps finite values
  finite and NaN NaN.
\<close>

lemma fscale_Fin [fval_simps]:
  "c \<noteq> 0 \<Longrightarrow> fdiv (fmul (Fin x) (Fin k)) (Fin c) = Fin (x * k / c)"
  by simp

lemma fscale_NaN [fval_simps]: "fdiv (fmul NaN k) c = NaN"
  by simp

end
