(* ===== verification/Projectile.thy ===== *)
theory Projectile
  imports Prelude
begin

text \<open>
  The abstract specification the solver is meant to implement: drag-free
  projectile motion over flat ground. A projectile launched at speed \<open>v\<close>
  and angle \<open>\<theta>\<close> (radians) under gravity \<open>g\<close> is at \<open>traj v g \<theta> t\<close> at time
  \<open>t\<close>; a firing solution \<open>(\<theta>, T)\<close> for a target at distance \<open>d\<close> is correct
  when the projectile is at \<open>(d, 0)\<close> at time \<open>T\<close>. The lemmas characterise
  the launch angles that hit through the tangent of the angle (the quadratic
  that the solver's closed form solves). Nothing here is code; the solver theory proves
  that the source's formulas meet this specification.
\<close>

definition traj :: "real \<Rightarrow> real \<Rightarrow> real \<Rightarrow> real \<Rightarrow> vec2f" where
  "traj v g \<theta> t = (v * cos \<theta> * t, v * sin \<theta> * t - g * t\<^sup>2 / 2)"

definition hits :: "real \<Rightarrow> real \<Rightarrow> real \<Rightarrow> real \<Rightarrow> real \<Rightarrow> bool" where
  "hits v g d \<theta> T \<longleftrightarrow> traj v g \<theta> T = (d, 0)"

text \<open>
  The tangent \<open>t\<close> of a launch angle that reaches distance \<open>d\<close> solves
  \<open>g d (1 + t\<^sup>2) = 2 v\<^sup>2 t\<close>. Both roots of that quadratic have the closed
  form \<open>(v\<^sup>2 \<plusminus> q) / (g d)\<close> with \<open>q\<^sup>2 = v\<^sup>4 - g\<^sup>2 d\<^sup>2\<close>.
\<close>

lemma range_quadratic_root:
  fixes v2 g d q s :: real
  assumes q: "q * q = v2 * v2 - g * (g * d * d)" and s: "s * s = 1" and gd: "g * d \<noteq> 0"
  shows "g * d * (1 + ((v2 + s * q) / (g * d))\<^sup>2) = 2 * v2 * ((v2 + s * q) / (g * d))"
proof -
  have P: "(v2 + s * q) * (v2 + s * q) = 2 * v2 * (v2 + s * q) - (g * d) * (g * d)"
    using q s by algebra
  have "(g * d) * (g * d * (1 + ((v2 + s * q) / (g * d))\<^sup>2))
        = (g * d) * (g * d) + (v2 + s * q) * (v2 + s * q)"
    using gd by (simp add: field_simps power2_eq_square)
  also have "\<dots> = (g * d) * (2 * v2 * ((v2 + s * q) / (g * d)))"
    using gd P by simp
  finally show ?thesis by (rule mult_left_cancel [THEN iffD1, OF gd])
qed

text \<open>The two roots multiply to one: the two launch angles are complementary.\<close>

lemma range_quadratic_roots_product:
  fixes v2 g d q :: real
  assumes q: "q * q = v2 * v2 - g * (g * d * d)" and gd: "g * d \<noteq> 0"
  shows "((v2 + q) / (g * d)) * ((v2 - q) / (g * d)) = 1"
proof -
  have "(v2 + q) * (v2 - q) = (g * d) * (g * d)"
    using q by algebra
  then show ?thesis using gd by (simp add: field_simps)
qed

text \<open>
  A shot whose tangent solves the quadratic is at \<open>(d, 0)\<close> after
  \<open>d / (v cos \<theta>)\<close> seconds, the time at which it has covered \<open>d\<close>
  horizontally.
\<close>

lemma traj_arctan_hits:
  fixes v g d t :: real
  assumes v: "v \<noteq> 0" and quad: "g * d * (1 + t\<^sup>2) = 2 * (v * v) * t"
  shows "hits v g d (arctan t) (d / (v * cos (arctan t)))"
proof -
  let ?q = "sqrt (1 + t\<^sup>2)"
  have q: "0 < ?q" by simp
  have qq: "?q * ?q = 1 + t\<^sup>2" by simp
  have c: "cos (arctan t) = 1 / ?q" by (simp add: cos_arctan)
  have sn: "sin (arctan t) = t / ?q" by (simp add: sin_arctan)
  have T: "d / (v * cos (arctan t)) = d * ?q / v" using q v by (simp add: c)
  have x: "v * cos (arctan t) * (d * ?q / v) = d" using q v by (simp add: c)
  have "v * sin (arctan t) * (d * ?q / v) - g * (d * ?q / v)\<^sup>2 / 2
        = d * t - g * d * d * (?q * ?q) / (2 * (v * v))"
    using q v by (simp add: sn power2_eq_square field_simps)
  also have "\<dots> = d * t - d * (g * d * (1 + t\<^sup>2)) / (2 * (v * v))"
    by (simp add: qq algebra_simps)
  also have "\<dots> = 0" using v by (simp add: quad)
  finally show ?thesis using x T by (simp add: hits_def traj_def)
qed

end
