(* ===== verification/ArtilleryMath.thy ===== *)
theory ArtilleryMath
  imports FloatVal Projectile
begin

text \<open>
  The solver: \<^verbatim>\<open>struct ArtilleryMath\<close> (source lines 9--28), four static
  functions of floats. \<open>hypot\<close> and \<open>atan2\<close> are the C library functions
  the code calls; \<open>atan2\<close> follows C99 on positive zeros
  (\<open>atan2(+0, x) = +pi\<close> for \<open>x < 0\<close>, \<open>atan2(+0, +0) = +0\<close>), which are the
  only zeros the differences \<open>b.x - a.x\<close> of the code produce.
  \<open>elevation\<close> and \<open>timeOfFlight\<close> compute on \<^typ>\<open>fval\<close>, so that the
  divisions by zero of the source give the infinities and NaNs they give at
  run time. The lemmas show that the solver meets the projectile
  specification of \<^theory_text>\<open>Projectile\<close> wherever the target is in range, and
  what it returns everywhere else.
\<close>

definition hypot :: "real \<Rightarrow> real \<Rightarrow> real" where
  "hypot x y = sqrt (x\<^sup>2 + y\<^sup>2)"

definition atan2 :: "real \<Rightarrow> real \<Rightarrow> real" where
  "atan2 y x =
     (if 0 < x then arctan (y / x)
      else if x < 0 then (if 0 \<le> y then arctan (y / x) + pi else arctan (y / x) - pi)
      else if 0 < y then pi / 2 else if y < 0 then - (pi / 2) else 0)"

definition distance :: "vec2f \<Rightarrow> vec2f \<Rightarrow> real" where
  "distance a b = hypot (fst b - fst a) (snd b - snd a)"

definition azimuth :: "vec2f \<Rightarrow> vec2f \<Rightarrow> real" where
  "azimuth a b = atan2 (fst b - fst a) (snd b - snd a) * 180 / PI_F"

definition elevation :: "real \<Rightarrow> real \<Rightarrow> real \<Rightarrow> bool \<Rightarrow> fval" where
  "elevation d velocity gravity highArc =
     (let v2 = velocity * velocity;
          g = gravity;
          root = v2 * v2 - g * (g * d * d)
      in if root < 0 then Fin 0
         else
           (let angle = fatan (fdiv (Fin (v2 + (if highArc then -1 else 1) * sqrt root))
                                    (Fin (g * d)))
            in fdiv (fmul angle (Fin 180)) (Fin PI_F)))"

definition timeOfFlight :: "real \<Rightarrow> real \<Rightarrow> fval \<Rightarrow> real \<Rightarrow> fval" where
  "timeOfFlight d velocity angle gravity =
     (let rad = fdiv (fmul angle (Fin PI_F)) (Fin 180)
      in fdiv (Fin d) (fmul (Fin velocity) (fcos rad)))"

text \<open>
  The tangent of the launch angle that \<open>elevation\<close> computes when the
  discriminant is not negative, and the discriminant itself.
\<close>

definition discr :: "real \<Rightarrow> real \<Rightarrow> real \<Rightarrow> real" where
  "discr d velocity g = velocity * velocity * (velocity * velocity) - g * (g * d * d)"

definition launch_tan :: "real \<Rightarrow> real \<Rightarrow> real \<Rightarrow> bool \<Rightarrow> real" where
  "launch_tan d velocity g highArc =
     (velocity * velocity + (if highArc then -1 else 1) * sqrt (discr d velocity g)) / (g * d)"

subsection \<open>Distance\<close>

lemma distance_nonneg: "0 \<le> distance a b"
  by (simp add: distance_def hypot_def)

lemma distance_pos: "a \<noteq> b \<Longrightarrow> 0 < distance a b"
  by (cases a; cases b) (auto simp: distance_def hypot_def add_pos_nonneg add_nonneg_pos)

lemma distance_self [simp]: "distance a a = 0"
  by (simp add: distance_def hypot_def)

subsection \<open>Elevation and time of flight in range\<close>

lemma discr_nonneg_velocity:
  assumes gd: "g * d \<noteq> 0" and r: "0 \<le> discr d v g"
  shows "v \<noteq> 0"
proof
  assume "v = 0"
  moreover have "0 < (g * d)\<^sup>2" using gd by simp
  ultimately show False using r by (simp add: discr_def power2_eq_square ac_simps)
qed

lemma elevation_in_range:
  assumes gd: "g * d \<noteq> 0" and r: "0 \<le> discr d v g"
  shows "elevation d v g hi = Fin (arctan (launch_tan d v g hi) * 180 / PI_F)"
  using assms by (simp add: elevation_def launch_tan_def discr_def Let_def not_less fval_simps)

lemma launch_tan_quadratic:
  assumes gd: "g * d \<noteq> 0" and r: "0 \<le> discr d v g"
  shows "g * d * (1 + (launch_tan d v g hi)\<^sup>2) = 2 * (v * v) * launch_tan d v g hi"
proof -
  have q: "sqrt (discr d v g) * sqrt (discr d v g) = v * v * (v * v) - g * (g * d * d)"
    using r by (simp add: discr_def)
  have s: "(if hi then -1 else 1) * (if hi then -1 else 1) = (1::real)" by simp
  show ?thesis
    unfolding launch_tan_def by (rule range_quadratic_root [OF q s gd])
qed

lemma timeOfFlight_launch:
  assumes v: "v \<noteq> 0"
  shows "timeOfFlight d v (Fin (arctan t * 180 / PI_F)) g = Fin (d / (v * cos (arctan t)))"
  using v by (simp add: timeOfFlight_def Let_def fval_simps)

text \<open>
  The solver in range: the angle of either arc is finite, its time of flight
  is finite, and the shot hits.
\<close>

lemma elevation_tof_hits:
  assumes gd: "g * d \<noteq> 0" and r: "0 \<le> discr d v g"
  shows "\<exists>\<theta> T. elevation d v g hi = Fin \<theta> \<and> timeOfFlight d v (Fin \<theta>) g = Fin T
            \<and> hits v g d (\<theta> * PI_F / 180) T"
proof -
  have v: "v \<noteq> 0" using discr_nonneg_velocity [OF gd r] .
  let ?t = "launch_tan d v g hi"
  have "hits v g d (arctan ?t) (d / (v * cos (arctan ?t)))"
    using v launch_tan_quadratic [OF gd r] by (rule traj_arctan_hits)
  then show ?thesis
    using elevation_in_range [OF gd r] timeOfFlight_launch [OF v] by simp
qed

text \<open>
  C1. Where the target is in range (non-negative discriminant, positive
  distance, nonzero gravity), \<open>elevation\<close> returns a finite angle for either
  arc, \<open>timeOfFlight\<close> of that angle is finite, and a projectile fired at the
  angle (converted back to radians as \<open>timeOfFlight\<close> does) is at the target
  at that time.
\<close>

theorem firing_solution_hits:
  assumes d: "0 < d" and g: "g \<noteq> 0" and r: "0 \<le> discr d v g"
  shows "\<exists>\<theta> T. elevation d v g highArc = Fin \<theta> \<and> timeOfFlight d v (Fin \<theta>) g = Fin T
            \<and> hits v g d (\<theta> * PI_F / 180) T"
proof -
  have gd: "g * d \<noteq> 0" using d g by simp
  show ?thesis by (rule elevation_tof_hits [OF gd r])
qed

subsection \<open>The two arcs, the degenerate and the out-of-range cases\<close>

lemma launch_tan_pos:
  assumes d: "0 < d" and g: "0 < g" and r: "0 \<le> discr d v g"
  shows "0 < launch_tan d v g hi"
proof -
  have gd: "g * d \<noteq> 0" using d g by simp
  have v: "v \<noteq> 0" using discr_nonneg_velocity [OF gd r] .
  have "sqrt (discr d v g) < sqrt (v * v * (v * v))"
  proof (rule real_sqrt_less_mono)
    have "0 < g * (g * d * d)" using d g by simp
    then show "discr d v g < v * v * (v * v)" by (simp add: discr_def)
  qed
  also have "\<dots> = v * v" by simp
  finally have lt: "sqrt (discr d v g) < v * v" .
  have vv: "0 < v * v" using v by (rule mult_self_pos)
  have sq: "0 \<le> sqrt (discr d v g)" using r by simp
  have "0 < v * v + (if hi then -1 else 1) * sqrt (discr d v g)"
  proof (cases hi)
    case True
    then show ?thesis using lt by simp
  next
    case False
    then show ?thesis using add_pos_nonneg [OF vv sq] by simp
  qed
  then show ?thesis using d g by (simp add: launch_tan_def)
qed

lemma launch_tan_high_le_low:
  assumes d: "0 < d" and g: "0 < g" and r: "0 \<le> discr d v g"
  shows "launch_tan d v g True \<le> launch_tan d v g False"
  unfolding launch_tan_def using d g r by (intro divide_right_mono) auto

lemma launch_tan_product:
  assumes gd: "g * d \<noteq> 0" and r: "0 \<le> discr d v g"
  shows "launch_tan d v g False * launch_tan d v g True = 1"
proof -
  have q: "sqrt (discr d v g) * sqrt (discr d v g) = v * v * (v * v) - g * (g * d * d)"
    using r by (simp add: discr_def)
  have lo: "launch_tan d v g False = (v * v + sqrt (discr d v g)) / (g * d)"
    and hi: "launch_tan d v g True = (v * v - sqrt (discr d v g)) / (g * d)"
    by (simp_all add: launch_tan_def)
  show ?thesis
    unfolding lo hi by (rule range_quadratic_roots_product [OF q gd])
qed

text \<open>
  C8. In range and with positive gravity, both arcs are finite and their
  angles add up to a right angle (\<open>90 * pi / PI_F\<close> in the degrees of the
  code); the angle the code labels \<open>highArc\<close> is never above the one it
  labels low: the low arc is the steep one.
\<close>

theorem elevation_arcs_complementary:
  assumes d: "0 < d" and g: "0 < g" and r: "0 \<le> discr d v g"
  shows "\<exists>lo hi. elevation d v g False = Fin lo \<and> elevation d v g True = Fin hi
           \<and> lo + hi = 90 * pi / PI_F \<and> hi \<le> lo"
proof -
  have gd: "g * d \<noteq> 0" using d g by simp
  let ?lo = "launch_tan d v g False" and ?hi = "launch_tan d v g True"
  have pos: "0 < ?lo" by (rule launch_tan_pos [OF d g r])
  have inv: "?hi = 1 / ?lo"
    using launch_tan_product [OF gd r] pos by (simp add: field_simps)
  have sum: "arctan ?lo + arctan ?hi = pi / 2"
    using arctan_plus_arctan_inverse [OF pos] inv by simp
  have le: "arctan ?hi \<le> arctan ?lo"
    using launch_tan_high_le_low [OF d g r] by (simp add: arctan_le_iff)
  have "arctan ?lo * 180 / PI_F + arctan ?hi * 180 / PI_F
        = (arctan ?lo + arctan ?hi) * 180 / PI_F"
    by (simp add: add_divide_distrib distrib_right)
  also have "\<dots> = 90 * pi / PI_F" using sum by simp
  finally have "arctan ?lo * 180 / PI_F + arctan ?hi * 180 / PI_F = 90 * pi / PI_F" .
  moreover have "arctan ?hi * 180 / PI_F \<le> arctan ?lo * 180 / PI_F"
    using le by simp
  ultimately show ?thesis
    using elevation_in_range [OF gd r] by auto
qed

text \<open>
  C6. At distance zero the code does not return the sentinel 0: the low
  arc divides a positive number by \<open>g * 0\<close> and gives \<open>atan(+inf)\<close>, a
  right angle, and the high arc divides zero by zero and gives NaN.
\<close>

theorem elevation_zero_distance:
  assumes v: "v \<noteq> 0"
  shows "elevation 0 v g False = Fin (90 * pi / PI_F) \<and> elevation 0 v g True = NaN"
proof -
  have vv: "0 < v * v" using v by (rule mult_self_pos)
  show ?thesis using v vv by (simp add: elevation_def Let_def not_less)
qed

text \<open>
  C5. When the discriminant is negative (target beyond the maximum range),
  \<open>elevation\<close> returns the sentinel 0 for either arc.
\<close>

theorem elevation_out_of_range:
  assumes "discr d v g < 0"
  shows "elevation d v g hi = Fin 0"
  using assms by (simp add: elevation_def discr_def Let_def)

text \<open>
  C26. For a target out of range the displayed time of flight is the finite
  value \<open>dist / velocity\<close> computed from the sentinel elevation 0.
\<close>

theorem out_of_range_time_of_flight:
  assumes "discr d v g < 0" and "v \<noteq> 0"
  shows "timeOfFlight d v (elevation d v g hi) g = Fin (d / v)"
  using assms by (simp add: elevation_def discr_def timeOfFlight_def Let_def)

text \<open>
  C27. With velocity 0 (the input field accepts it) and a target at positive
  distance, the elevation is the sentinel 0 and the time of flight is
  \<open>+inf\<close>.
\<close>

theorem zero_velocity_solution:
  assumes d: "0 < d" and g: "g \<noteq> 0"
  shows "elevation d 0 g hi = Fin 0 \<and> timeOfFlight d 0 (elevation d 0 g hi) g = PInf"
proof -
  have "0 < (g * g) * (d * d)"
    using mult_self_pos [OF g] d by simp
  then show ?thesis using d by (simp add: elevation_def timeOfFlight_def Let_def ac_simps)
qed

lemma timeOfFlight_NaN: "timeOfFlight d v NaN g = NaN"
  by (simp add: timeOfFlight_def Let_def fval_simps)

text \<open>
  C28. In range, the time of flight is positive exactly when the velocity
  is: a negative velocity, which the input field accepts, gives a negative
  time of flight.
\<close>

theorem time_of_flight_sign:
  assumes d: "0 < d" and g: "0 < g" and r: "0 \<le> discr d v g"
  shows "\<exists>T. timeOfFlight d v (elevation d v g hi) g = Fin T \<and> (0 < T \<longleftrightarrow> 0 < v)"
proof -
  have gd: "g * d \<noteq> 0" using d g by simp
  have v: "v \<noteq> 0" using discr_nonneg_velocity [OF gd r] .
  let ?t = "launch_tan d v g hi"
  have c: "0 < cos (arctan ?t)" by (rule cos_arctan_pos)
  have "0 < d / (v * cos (arctan ?t)) \<longleftrightarrow> 0 < v * cos (arctan ?t)"
    using d by (simp add: zero_less_divide_iff)
  also have "\<dots> \<longleftrightarrow> 0 < v"
    using c by (simp add: zero_less_mult_iff del: cos_arctan_pos)
  finally have "0 < d / (v * cos (arctan ?t)) \<longleftrightarrow> 0 < v" .
  then show ?thesis
    using elevation_in_range [OF gd r] timeOfFlight_launch [OF v] by simp
qed


subsection \<open>Maximum range and the angles of the two arcs\<close>

text \<open>
  C29. With positive gravity the discriminant is non-negative exactly when
  \<open>g * dist \<le> v\<^sup>2\<close>: the solver finds an angle up to the maximum range
  \<open>v\<^sup>2 / g\<close> and returns the sentinel beyond it.
\<close>

theorem in_range_iff:
  assumes g: "0 < g" and d: "0 \<le> d"
  shows "0 \<le> discr d v g \<longleftrightarrow> g * d \<le> v * v"
proof -
  have "discr d v g = (v * v)\<^sup>2 - (g * d)\<^sup>2" by (simp add: discr_def power2_eq_square ac_simps)
  then have "0 \<le> discr d v g \<longleftrightarrow> (g * d)\<^sup>2 \<le> (v * v)\<^sup>2" by simp
  also have "\<dots> \<longleftrightarrow> \<bar>g * d\<bar> \<le> v * v" by (rule power2_le_iff_abs_le) simp
  also have "\<dots> \<longleftrightarrow> g * d \<le> v * v" using g d by simp
  finally show ?thesis .
qed

text \<open>
  C30. In range, the arc labelled high lies in \<open>(0, 45]\<close> and the arc
  labelled low in \<open>[45, 90)\<close>, in the code's degrees (\<open>pi / PI_F\<close> times
  the true ones).
\<close>

theorem elevation_bounds:
  assumes d: "0 < d" and g: "0 < g" and r: "0 \<le> discr d v g"
  shows "\<exists>lo hi. elevation d v g False = Fin lo \<and> elevation d v g True = Fin hi
           \<and> 0 < hi \<and> hi \<le> 45 * pi / PI_F \<and> 45 * pi / PI_F \<le> lo \<and> lo < 90 * pi / PI_F"
proof -
  have gd: "g * d \<noteq> 0" using d g by simp
  let ?lo = "launch_tan d v g False" and ?hi = "launch_tan d v g True"
  have pos: "0 < ?hi" by (rule launch_tan_pos [OF d g r])
  have prod: "?lo * ?hi = 1" by (rule launch_tan_product [OF gd r])
  have le: "?hi \<le> ?lo" by (rule launch_tan_high_le_low [OF d g r])
  have hi1: "?hi \<le> 1"
  proof (rule ccontr)
    assume "\<not> ?hi \<le> 1"
    then have "1 * 1 < ?lo * ?hi" using le by (intro mult_strict_mono) auto
    then show False using prod by simp
  qed
  have lo1: "1 \<le> ?lo"
  proof (rule ccontr)
    assume "\<not> 1 \<le> ?lo"
    then have "?lo * ?hi < 1 * 1" using hi1 pos le by (intro mult_strict_mono') auto
    then show False using prod by simp
  qed
  have "0 < arctan ?hi" "arctan ?hi \<le> pi / 4" "pi / 4 \<le> arctan ?lo" "arctan ?lo < pi / 2"
    using pos hi1 lo1 arctan_ubound [of ?lo] arctan_le_iff [of ?hi 1] arctan_le_iff [of 1 ?lo]
    by (simp_all add: arctan_one)
  then have "0 * 180 / PI_F < arctan ?hi * 180 / PI_F" "arctan ?hi * 180 / PI_F \<le> (pi / 4) * 180 / PI_F"
       "(pi / 4) * 180 / PI_F \<le> arctan ?lo * 180 / PI_F" "arctan ?lo * 180 / PI_F < (pi / 2) * 180 / PI_F"
    by (simp_all only: deg_scale_less_iff deg_scale_le_iff)
  then show ?thesis using elevation_in_range [OF gd r] by simp
qed

subsection \<open>Azimuth\<close>

lemma atan2_bounds: "- pi < atan2 y x \<and> atan2 y x \<le> pi"
proof -
  have b: "- (pi / 2) < arctan (y / x)" "arctan (y / x) < pi / 2"
    using arctan_bounded [of "y / x"] by auto
  have n: "y / x \<le> 0" if "x < 0" "0 \<le> y"
    using that by (simp add: divide_nonneg_neg)
  have p: "0 < y / x" if "x < 0" "y < 0"
    using that by (simp add: divide_neg_neg)
  show ?thesis
    using b n p pi_gt_zero by (auto simp: atan2_def)
qed

lemma hypot_polar_atan2:
  "hypot x y * cos (atan2 y x) = x \<and> hypot x y * sin (atan2 y x) = y"
proof (cases "x = 0")
  case True
  then show ?thesis by (auto simp: atan2_def hypot_def)
next
  case False
  let ?t = "y / x" let ?q = "sqrt (1 + ?t\<^sup>2)"
  have h: "hypot x y = \<bar>x\<bar> * ?q" using False by (simp add: hypot_def hypot_factor)
  have c: "?q * cos (arctan ?t) = 1" by (rule sqrt_cos_arctan)
  have s: "?q * sin (arctan ?t) = ?t" by (rule sqrt_sin_arctan)
  have polar: "\<bar>x\<bar> * ?q * cos (arctan ?t) = \<bar>x\<bar> \<and> \<bar>x\<bar> * ?q * sin (arctan ?t) = \<bar>x\<bar> * ?t"
    using c s by (simp add: mult.assoc)
  consider "0 < x" | "x < 0" "0 \<le> y" | "x < 0" "y < 0" using False by linarith
  then show ?thesis
  proof cases
    case 1
    then show ?thesis using h polar by (simp add: atan2_def)
  next
    case 2
    then show ?thesis using h polar by (simp add: atan2_def)
  next
    case 3
    then show ?thesis using h polar by (simp add: atan2_def sin_diff cos_diff)
  qed
qed

text \<open>
  C9. Distance and azimuth are polar coordinates of the target around the
  origin: converting the azimuth back to radians with the code's
  \<open>3.14159265f\<close>, the origin plus \<open>distance\<close> times
  \<open>(sin, cos)\<close> of it is exactly the target.
\<close>

theorem azimuth_polar_roundtrip:
  "b = (fst a + distance a b * sin (azimuth a b * PI_F / 180),
        snd a + distance a b * cos (azimuth a b * PI_F / 180))"
proof -
  let ?x = "snd b - snd a" and ?y = "fst b - fst a"
  have "hypot ?x ?y * cos (atan2 ?y ?x) = ?x \<and> hypot ?x ?y * sin (atan2 ?y ?x) = ?y"
    by (rule hypot_polar_atan2)
  moreover have "distance a b = hypot ?x ?y"
    by (simp add: distance_def hypot_def add.commute)
  ultimately show ?thesis by (simp add: azimuth_def prod_eq_iff)
qed

text \<open>
  C10. The azimuth lies in \<open>(-180 pi / PI_F, 180 pi / PI_F]\<close>, the range
  of \<open>atan2\<close> scaled to the code's degrees; it is not normalised to
  \<open>[0, 360)\<close>.
\<close>

theorem azimuth_bounds:
  "- (180 * pi / PI_F) < azimuth a b \<and> azimuth a b \<le> 180 * pi / PI_F"
proof -
  let ?t = "atan2 (fst b - fst a) (snd b - snd a)"
  have "- pi < ?t" "?t \<le> pi" using atan2_bounds by auto
  then have "(- pi) * 180 / PI_F < ?t * 180 / PI_F" "?t * 180 / PI_F \<le> pi * 180 / PI_F"
    by (simp_all only: deg_scale_less_iff deg_scale_le_iff)
  then show ?thesis by (simp add: azimuth_def ac_simps)
qed

lemma azimuth_same_point: "azimuth a a = 0"
  by (simp add: azimuth_def atan2_def)

subsection \<open>Witnesses\<close>

text \<open>The theorems above at the inputs of the spec's scenarios (origin to a
  target 1000 m or 100 km away, velocity 300, gravity \<open>9.81f\<close>).\<close>

theorem firing_solution_hits_witness:
  "\<exists>\<theta> T. elevation 1000 300 GRAVITY_F False = Fin \<theta> \<and> timeOfFlight 1000 300 (Fin \<theta>) GRAVITY_F = Fin T
          \<and> hits 300 GRAVITY_F 1000 (\<theta> * PI_F / 180) T"
  by (rule firing_solution_hits) (simp_all add: discr_def GRAVITY_F_def)

theorem elevation_out_of_range_witness: "elevation 100000 300 GRAVITY_F False = Fin 0"
  by (rule elevation_out_of_range) (simp add: discr_def GRAVITY_F_def)

theorem elevation_zero_distance_witness:
  "elevation 0 300 GRAVITY_F False = Fin (90 * pi / PI_F) \<and> elevation 0 300 GRAVITY_F True = NaN"
  by (rule elevation_zero_distance) simp

theorem elevation_arcs_complementary_witness:
  "\<exists>lo hi. elevation 1000 300 GRAVITY_F False = Fin lo \<and> elevation 1000 300 GRAVITY_F True = Fin hi
     \<and> lo + hi = 90 * pi / PI_F \<and> hi \<le> lo"
  by (rule elevation_arcs_complementary) (simp_all add: discr_def GRAVITY_F_def)

theorem time_of_flight_sign_witness:
  "\<exists>T. timeOfFlight 1000 (-300) (elevation 1000 (-300) GRAVITY_F False) GRAVITY_F = Fin T \<and> \<not> 0 < T"
proof -
  obtain T where "timeOfFlight 1000 (-300) (elevation 1000 (-300) GRAVITY_F False) GRAVITY_F = Fin T"
    and "0 < T \<longleftrightarrow> 0 < (-300::real)"
    using time_of_flight_sign [of 1000 GRAVITY_F "-300" False] by (auto simp: discr_def GRAVITY_F_def)
  then show ?thesis by auto
qed

theorem out_of_range_time_of_flight_witness:
  "timeOfFlight 100000 300 (elevation 100000 300 GRAVITY_F False) GRAVITY_F = Fin (100000 / 300)"
  by (rule out_of_range_time_of_flight) (simp_all add: discr_def GRAVITY_F_def)

theorem zero_velocity_solution_witness:
  "elevation 1000 0 GRAVITY_F False = Fin 0
   \<and> timeOfFlight 1000 0 (elevation 1000 0 GRAVITY_F False) GRAVITY_F = PInf"
  by (rule zero_velocity_solution) (simp_all add: GRAVITY_F_def)

theorem in_range_iff_witness:
  "0 \<le> discr 1000 300 GRAVITY_F \<longleftrightarrow> GRAVITY_F * 1000 \<le> 300 * 300"
  by (rule in_range_iff) (simp_all add: GRAVITY_F_def)

theorem elevation_bounds_witness:
  "\<exists>lo hi. elevation 1000 300 GRAVITY_F False = Fin lo \<and> elevation 1000 300 GRAVITY_F True = Fin hi
     \<and> 0 < hi \<and> hi \<le> 45 * pi / PI_F \<and> 45 * pi / PI_F \<le> lo \<and> lo < 90 * pi / PI_F"
  by (rule elevation_bounds) (simp_all add: discr_def GRAVITY_F_def)

end
