(* ===== verification/MapView.thy ===== *)
theory MapView
  imports Prelude
begin

text \<open>
  The map camera: the \<^verbatim>\<open>sf::View mapView\<close> of \<^verbatim>\<open>main\<close> and the three
  SFML operations the event loop applies to it. A view is its centre and
  size (the program never rotates it and never sets a viewport, so the
  viewport is the whole window). \<open>mapPixelToCoords\<close> is SFML's
  \<^verbatim>\<open>RenderTarget::mapPixelToCoords\<close> for such a view on a window of the
  given size: the pixel is normalised to \<open>[-1, 1]\<^sup>2\<close> (y pointing up)
  and mapped through the inverse of the view's transform. The window is
  opened at 1200 x 700, but its default style lets the user resize it, and
  SFML then stretches the view over the new size; the window size is
  therefore an argument, the size of the window at the moment of the call.
\<close>

record view =
  viewCenter :: vec2f
  viewSize :: vec2f

definition WIN_W :: real where
  "WIN_W = 1200"

definition WIN_H :: real where
  "WIN_H = 700"

definition initial_view :: view where
  "initial_view = \<lparr>viewCenter = (300, 300), viewSize = (600, 600)\<rparr>"

definition mapPixelToCoords :: "vec2f \<Rightarrow> vec2i \<Rightarrow> view \<Rightarrow> vec2f" where
  "mapPixelToCoords win p v =
     (let nx = -1 + 2 * real_of_int (fst p) / fst win;
          ny = 1 - 2 * real_of_int (snd p) / snd win
      in (fst (viewCenter v) + nx * fst (viewSize v) / 2,
          snd (viewCenter v) - ny * snd (viewSize v) / 2))"

text \<open>
  The other direction, which SFML applies to every vertex drawn while the
  view is set (\<^verbatim>\<open>RenderTarget::mapCoordsToPixel\<close>, without the cast to
  whole pixels): the world point is normalised by the view and scaled to
  the window.
\<close>

definition world_to_pixel :: "vec2f \<Rightarrow> vec2f \<Rightarrow> view \<Rightarrow> vec2f" where
  "world_to_pixel win w v =
     ((fst w - fst (viewCenter v)) * fst win / fst (viewSize v) + fst win / 2,
      (snd w - snd (viewCenter v)) * snd win / snd (viewSize v) + snd win / 2)"

definition view_move :: "vec2f \<Rightarrow> view \<Rightarrow> view" where
  "view_move offset v = v\<lparr>viewCenter := vadd (viewCenter v) offset\<rparr>"

definition view_zoom :: "real \<Rightarrow> view \<Rightarrow> view" where
  "view_zoom factor v = v\<lparr>viewSize := (fst (viewSize v) * factor, snd (viewSize v) * factor)\<rparr>"

text \<open>The guard \<^verbatim>\<open>mouse.x < 600 && mouse.y < 600\<close> ("only in map area").\<close>

definition in_map_area :: "vec2i \<Rightarrow> bool" where
  "in_map_area p \<longleftrightarrow> fst p < 600 \<and> snd p < 600"

definition win_size_pos :: "vec2f \<Rightarrow> bool" where
  "win_size_pos win \<longleftrightarrow> 0 < fst win \<and> 0 < snd win"

definition view_size_pos :: "view \<Rightarrow> bool" where
  "view_size_pos v \<longleftrightarrow> 0 < fst (viewSize v) \<and> 0 < snd (viewSize v)"

text \<open>The view is square: its width equals its height.\<close>

definition view_square :: "view \<Rightarrow> bool" where
  "view_square v \<longleftrightarrow> fst (viewSize v) = snd (viewSize v)"

subsection \<open>Pixels and world points\<close>

text \<open>
  For a window and a view of positive size, drawing the world point under a
  pixel puts it back on that pixel.
\<close>

lemma world_to_pixel_mapPixelToCoords:
  assumes "win_size_pos win" and "view_size_pos v"
  shows "world_to_pixel win (mapPixelToCoords win p v) v = (of_int (fst p), of_int (snd p))"
  using assms by (simp add: world_to_pixel_def mapPixelToCoords_def view_size_pos_def win_size_pos_def
      Let_def field_simps)

subsection \<open>Moving and zooming\<close>

lemma mapPixelToCoords_move:
  "mapPixelToCoords win p (view_move off v) = vadd (mapPixelToCoords win p v) off"
  by (simp add: mapPixelToCoords_def view_move_def vadd_def Let_def)

text \<open>
  Dragging: moving the view by the difference of the world points under the
  previous and the current cursor keeps the world point that was under the
  previous cursor under the current one.
\<close>

lemma drag_keeps_point:
  "mapPixelToCoords win m (view_move (vsub (mapPixelToCoords win l v) (mapPixelToCoords win m v)) v)
   = mapPixelToCoords win l v"
  by (simp add: mapPixelToCoords_move)

lemma view_zoom_center [simp]: "viewCenter (view_zoom f v) = viewCenter v"
  by (simp add: view_zoom_def)

lemma view_zoom_zoom: "view_zoom a (view_zoom b v) = view_zoom (b * a) v"
  by (simp add: view_zoom_def mult.assoc)

lemma view_size_pos_zoom: "view_size_pos v \<Longrightarrow> 0 < f \<Longrightarrow> view_size_pos (view_zoom f v)"
  by (simp add: view_size_pos_def view_zoom_def)

lemma view_size_pos_move: "view_size_pos (view_move off v) = view_size_pos v"
  by (simp add: view_size_pos_def view_move_def)

lemma view_square_zoom: "view_square v \<Longrightarrow> view_square (view_zoom f v)"
  by (simp add: view_square_def view_zoom_def)

lemma view_square_move: "view_square (view_move off v) = view_square v"
  by (simp add: view_square_def view_move_def)

lemma view_square_initial: "view_square initial_view"
  by (simp add: view_square_def initial_view_def)

lemma view_size_pos_initial: "view_size_pos initial_view"
  by (simp add: view_size_pos_def initial_view_def)

subsection \<open>The clickable area\<close>

text \<open>
  C21. The view is stretched over the whole window, but clicks
  are accepted only on the pixels left of and above 600. With the initial
  view, on the window as it is opened or any wider one, every accepted click
  lands at a world x below 300, so the right half of the 600 x 600 map grid
  cannot be clicked until the view is dragged or zoomed.
\<close>

theorem map_area_left_half:
  assumes "in_map_area p" and "WIN_W \<le> fst win"
  shows "fst (mapPixelToCoords win p initial_view) < 300"
proof -
  have "real_of_int (fst p) < 600" using assms(1) by (simp add: in_map_area_def)
  moreover have w: "1200 \<le> fst win" using assms(2) by (simp add: WIN_W_def)
  ultimately have "real_of_int (fst p) * 600 < 300 * fst win" by linarith
  then show ?thesis using w by (simp add: mapPixelToCoords_def initial_view_def Let_def field_simps)
qed

theorem map_area_left_half_witness:
  "in_map_area (599, 599) \<and> WIN_W \<le> fst (WIN_W, WIN_H)
   \<and> fst (mapPixelToCoords (WIN_W, WIN_H) (599, 599) initial_view) < 300"
  using map_area_left_half [of "(599, 599)" "(WIN_W, WIN_H)"] by (simp add: in_map_area_def)

end
