(* ===== verification/TRPRegistry.thy ===== *)
theory TRPRegistry
  imports Prelude
begin

text \<open>
  The target reference points: \<^verbatim>\<open>struct TRP\<close> (source lines 31--34), the
  vector \<^verbatim>\<open>trps\<close> and the name buffer \<^verbatim>\<open>static char trpName[64]\<close> of
  \<^verbatim>\<open>main\<close>, and the three widgets that act on them (lines 122--138): the
  name field, the "Save TRP" button and one button per stored point. The
  vector and the buffer are the record \<open>trp_panel\<close>; the application state
  extends it, so the operations here are stated over any extension
  \<open>'a trp_panel_scheme\<close> and the application uses them as they are. The
  name buffer holds at most 63 characters before its terminating NUL, and
  \<^verbatim>\<open>strlen(trpName)\<close> is the length of the string it holds.
\<close>

record TRP =
  user :: vec2f
  target :: vec2f
  name :: string

record trp_panel =
  trps :: "TRP list"
  trpName :: string

definition TRP_NAME_BUF :: nat where
  "TRP_NAME_BUF = 64"

text \<open>\<^verbatim>\<open>ImGui::InputText("TRP Name", trpName, 64)\<close>: the text typed, cut to the buffer.\<close>

definition edit_trp_name :: "string \<Rightarrow> 'a trp_panel_scheme \<Rightarrow> 'a trp_panel_scheme" where
  "edit_trp_name s p = p\<lparr>trpName := take (TRP_NAME_BUF - 1) s\<rparr>"

text \<open>
  The "Save TRP" button once it is clicked: the point is stored only if both
  positions are set and the name is not empty; then the name buffer is
  cleared. Otherwise nothing changes.
\<close>

definition save_trp ::
  "bool \<Rightarrow> bool \<Rightarrow> vec2f \<Rightarrow> vec2f \<Rightarrow> 'a trp_panel_scheme \<Rightarrow> 'a trp_panel_scheme" where
  "save_trp userSet targetSet userPos targetPos p =
     (if userSet \<and> targetSet \<and> 0 < length (trpName p)
      then p\<lparr>trps := trps p @ [\<lparr>user = userPos, target = targetPos, name = trpName p\<rparr>],
             trpName := []\<rparr>
      else p)"

text \<open>
  The button of entry \<open>i\<close>: it exists only for \<open>i < trps.size()\<close>, and a
  click reads back the two positions of the entry.
\<close>

definition recall_trp :: "nat \<Rightarrow> 'a trp_panel_scheme \<Rightarrow> (vec2f \<times> vec2f) option" where
  "recall_trp i p =
     (if i < length (trps p) then Some (user (trps p ! i), target (trps p ! i)) else None)"

definition names_nonempty :: "'a trp_panel_scheme \<Rightarrow> bool" where
  "names_nonempty p \<longleftrightarrow> (\<forall>t \<in> set (trps p). name t \<noteq> [])"

subsection \<open>Save\<close>

text \<open>
  C11. A click on "Save TRP" with both positions set and a non-empty name
  appends the point with the two positions and the name, and clears the name
  buffer.
\<close>

lemma save_trp_accepted:
  assumes "userSet \<and> targetSet \<and> trpName p \<noteq> []"
  shows "trps (save_trp userSet targetSet u t p)
           = trps p @ [\<lparr>user = u, target = t, name = trpName p\<rparr>]
         \<and> trpName (save_trp userSet targetSet u t p) = []"
  using assms by (simp add: save_trp_def)

text \<open>
  C12. A click on "Save TRP" with an empty name or a position not set
  changes nothing: the list is unchanged and the name buffer is not cleared.
\<close>

lemma save_trp_rejected:
  assumes "\<not> (userSet \<and> targetSet \<and> trpName p \<noteq> [])"
  shows "save_trp userSet targetSet u t p = p"
  using assms by (auto simp: save_trp_def)

lemma save_trp_prefix: "prefix (trps p) (trps (save_trp us ts u t p))"
  by (simp add: save_trp_def)

lemma save_trp_names_nonempty:
  "names_nonempty p \<Longrightarrow> names_nonempty (save_trp us ts u t p)"
  by (simp add: save_trp_def names_nonempty_def)

lemma edit_trp_name_length: "length (trpName (edit_trp_name s p)) \<le> 63"
  by (simp add: edit_trp_name_def TRP_NAME_BUF_def)

lemma edit_trp_name_trps [simp]: "trps (edit_trp_name s p) = trps p"
  by (simp add: edit_trp_name_def)

lemma save_trp_name_length:
  "length (trpName p) \<le> 63 \<Longrightarrow> length (trpName (save_trp us ts u t p)) \<le> 63"
  by (simp add: save_trp_def)

subsection \<open>Recall\<close>

lemma recall_trp_save_new:
  assumes "userSet \<and> targetSet \<and> trpName p \<noteq> []"
  shows "recall_trp (length (trps p)) (save_trp userSet targetSet u t p) = Some (u, t)"
  using assms by (simp add: save_trp_def recall_trp_def nth_append)

text \<open>
  C13. Saving a point leaves the entries already stored, and what their
  buttons recall, unchanged.
\<close>

lemma recall_trp_save_old:
  "i < length (trps p) \<Longrightarrow> recall_trp i (save_trp us ts u t p) = recall_trp i p"
  by (simp add: save_trp_def recall_trp_def nth_append)

subsection \<open>Witnesses\<close>

text \<open>
  The name is checked with \<^verbatim>\<open>strlen\<close> only, so a name of two spaces is
  stored as it is (the spec asks for names that are non-empty after
  trimming); an empty name is rejected (spec scenario 4).
\<close>

theorem save_trp_accepted_witness:
  "trps (save_trp True True (10, 10) (500, 800) \<lparr>trps = [], trpName = ''  ''\<rparr>)
     = [\<lparr>user = (10, 10), target = (500, 800), name = ''  ''\<rparr>]
   \<and> trpName (save_trp True True (10, 10) (500, 800) \<lparr>trps = [], trpName = ''  ''\<rparr>) = []"
  using save_trp_accepted [of True True "\<lparr>trps = [], trpName = ''  ''\<rparr>" "(10, 10)" "(500, 800)"]
  by simp

theorem save_trp_rejected_witness:
  "save_trp True True (0, 0) (1, 1) \<lparr>trps = [], trpName = []\<rparr> = \<lparr>trps = [], trpName = []\<rparr>"
  by (rule save_trp_rejected) simp

theorem recall_trp_save_old_witness:
  "recall_trp 0 (save_trp True True (1, 1) (2, 2)
      \<lparr>trps = [\<lparr>user = (10, 10), target = (500, 800), name = ''Hill1''\<rparr>], trpName = ''Hill2''\<rparr>)
   = Some ((10, 10), (500, 800))"
  using recall_trp_save_old [of 0 "\<lparr>trps = [\<lparr>user = (10, 10), target = (500, 800), name = ''Hill1''\<rparr>],
      trpName = ''Hill2''\<rparr>" True True "(1, 1)" "(2, 2)"]
  by (simp add: recall_trp_def)

end
