(* ===== verification/App.thy ===== *)
theory App
  imports ArtilleryMath MapView TRPRegistry
begin

text \<open>
  The program's \<^verbatim>\<open>main\<close> (source lines 36--174) as a state machine. The
  local variables of \<^verbatim>\<open>main\<close> that outlive a frame, together with the
  window's open flag and current size, are the record \<open>app\<close>, an
  extension of the TRP panel. One iteration of
  \<^verbatim>\<open>while (window.isOpen())\<close> is \<open>frame\<close>: it handles the queued
  SFML events (\<open>handle_events\<close>, lines 56--97), computes the firing
  solution shown in the window from the state after the events
  (\<open>compute_solution\<close>, lines 106--114), then applies the one ImGui
  interaction of the frame (\<open>ui_step\<close>, lines 119--138). Each event comes
  with the cursor position that \<^verbatim>\<open>sf::Mouse::getPosition(window)\<close>
  returns while it is handled. Drawing (lines 141--169) reads the state and
  changes nothing; it is modelled in \<^theory_text>\<open>Render\<close> and \<^theory_text>\<open>Draw\<close>.
  The reachable states are those of runs of frames from the initial state
  while the window is open.
\<close>

datatype mouse_button = Left | Right | Middle | XButton1 | XButton2

datatype event =
    Closed
  | MouseButtonPressed mouse_button
  | MouseButtonReleased mouse_button
  | MouseMoved
  | MouseWheelScrolled real int int  \<comment> \<open>delta, x, y of \<^verbatim>\<open>event.mouseWheelScroll\<close>\<close>
  | Resized nat nat  \<comment> \<open>width, height of \<^verbatim>\<open>event.size\<close>\<close>
  | OtherEvent

record app = trp_panel +
  mapView :: view
  userPos :: vec2f
  targetPos :: vec2f
  userSet :: bool
  targetSet :: bool
  zoom :: real
  dragging :: bool
  lastDrag :: vec2i
  velocity :: real
  windowOpen :: bool
  winSize :: vec2f  \<comment> \<open>\<^verbatim>\<open>window.getSize()\<close>\<close>

definition init_app :: app where
  "init_app =
     \<lparr>trps = [], trpName = [], mapView = initial_view, userPos = (0, 0), targetPos = (0, 0),
      userSet = False, targetSet = False, zoom = 1, dragging = False, lastDrag = (0, 0),
      velocity = VELOCITY_INIT, windowOpen = True, winSize = (WIN_W, WIN_H)\<rparr>"

subsection \<open>Events\<close>

text \<open>
  The body of \<^verbatim>\<open>while (window.pollEvent(event))\<close> for one event. The body
  has no branch for \<^verbatim>\<open>sf::Event::Resized\<close>, but \<^verbatim>\<open>pollEvent\<close> itself
  records the new size of the window before it returns that event, and every
  later \<^verbatim>\<open>mapPixelToCoords\<close> and draw uses it.
\<close>

fun handle_event :: "vec2i \<Rightarrow> event \<Rightarrow> app \<Rightarrow> app" where
  "handle_event mouse Closed s = s\<lparr>windowOpen := False\<rparr>"
| "handle_event mouse (MouseButtonPressed b) s =
     (let world = mapPixelToCoords (winSize s) mouse (mapView s)
      in if in_map_area mouse then
           (case b of
              Left \<Rightarrow> s\<lparr>userPos := world, userSet := True\<rparr>
            | Right \<Rightarrow> s\<lparr>targetPos := world, targetSet := True\<rparr>
            | Middle \<Rightarrow> s\<lparr>dragging := True, lastDrag := mouse\<rparr>
            | _ \<Rightarrow> s)
         else s)"
| "handle_event mouse (MouseButtonReleased b) s =
     (if b = Middle then s\<lparr>dragging := False\<rparr> else s)"
| "handle_event mouse MouseMoved s =
     (if dragging s then
        (let offset = vsub (mapPixelToCoords (winSize s) (lastDrag s) (mapView s))
                           (mapPixelToCoords (winSize s) mouse (mapView s))
         in s\<lparr>mapView := view_move offset (mapView s), lastDrag := mouse\<rparr>)
      else s)"
| "handle_event mouse (MouseWheelScrolled delta x y) s =
     (if x < 600 \<and> y < 600
      then s\<lparr>mapView := view_zoom (if 0 < delta then ZOOM_IN_F else ZOOM_OUT_F) (mapView s)\<rparr>
      else s)"
| "handle_event mouse (Resized w h) s = s\<lparr>winSize := (real w, real h)\<rparr>"
| "handle_event mouse OtherEvent s = s"

text \<open>
  The event queue of one frame. After \<^verbatim>\<open>window.close()\<close> SFML's
  \<^verbatim>\<open>pollEvent\<close> returns false, so the events still queued are dropped.
\<close>

fun handle_events :: "(vec2i \<times> event) list \<Rightarrow> app \<Rightarrow> app" where
  "handle_events [] s = s"
| "handle_events ((mouse, e) # es) s =
     (if windowOpen s then handle_events es (handle_event mouse e s) else s)"

subsection \<open>The firing solution of a frame\<close>

record solution =
  sDist :: real
  sAz :: real
  elevLow :: fval
  elevHigh :: fval
  tofLow :: fval
  tofHigh :: fval

definition zero_solution :: solution where
  "zero_solution =
     \<lparr>sDist = 0, sAz = 0, elevLow = Fin 0, elevHigh = Fin 0, tofLow = Fin 0, tofHigh = Fin 0\<rparr>"

text \<open>The six solver calls of the frame, for a user and a target position and a velocity.\<close>

definition solve :: "vec2f \<Rightarrow> vec2f \<Rightarrow> real \<Rightarrow> solution" where
  "solve u t v =
     (let d = distance u t;
          az = azimuth u t;
          eL = elevation d v GRAVITY_F False;
          eH = elevation d v GRAVITY_F True
      in \<lparr>sDist = d, sAz = az, elevLow = eL, elevHigh = eH,
          tofLow = timeOfFlight d v eL GRAVITY_F,
          tofHigh = timeOfFlight d v eH GRAVITY_F\<rparr>)"

definition compute_solution :: "app \<Rightarrow> solution" where
  "compute_solution s =
     (if userSet s \<and> targetSet s then solve (userPos s) (targetPos s) (velocity s) else zero_solution)"

subsection \<open>The ImGui panel\<close>

text \<open>
  One interaction with the panel per frame: a new velocity typed into the
  \<^verbatim>\<open>InputFloat\<close> field (any float is accepted), a new text in the name
  field, a click on "Save TRP", or a click on the button of stored entry
  \<open>i\<close>.
\<close>

datatype ui_action = NoAction | SetVelocity real | EditName string | ClickSave | ClickTRP nat

fun ui_step :: "ui_action \<Rightarrow> app \<Rightarrow> app" where
  "ui_step NoAction s = s"
| "ui_step (SetVelocity v) s = s\<lparr>velocity := v\<rparr>"
| "ui_step (EditName n) s = edit_trp_name n s"
| "ui_step ClickSave s = save_trp (userSet s) (targetSet s) (userPos s) (targetPos s) s"
| "ui_step (ClickTRP i) s =
     (case recall_trp i s of
        None \<Rightarrow> s
      | Some (u, t) \<Rightarrow> s\<lparr>userPos := u, targetPos := t, userSet := True, targetSet := True\<rparr>)"

definition frame :: "(vec2i \<times> event) list \<Rightarrow> ui_action \<Rightarrow> app \<Rightarrow> solution \<times> app" where
  "frame evs ui s = (let s' = handle_events evs s in (compute_solution s', ui_step ui s'))"

inductive reachable :: "app \<Rightarrow> bool" where
  init: "reachable init_app"
| step: "reachable s \<Longrightarrow> windowOpen s \<Longrightarrow> reachable (snd (frame evs ui s))"

inductive_cases reachable_stepE: "reachable t"

text \<open>
  The invariant of the reachable states: every stored point has a name, a
  stored point implies that both positions are set,
  the name buffer holds at most 63 characters, and the view has a positive
  size and is square.
\<close>

definition app_inv :: "app \<Rightarrow> bool" where
  "app_inv s \<longleftrightarrow> names_nonempty s \<and> (trps s = [] \<or> userSet s \<and> targetSet s)
                 \<and> length (trpName s) \<le> 63 \<and> view_size_pos (mapView s) \<and> view_square (mapView s)"

subsection \<open>The invariant: one lemma per handler\<close>

lemma handle_event_panel [simp]:
  "trps (handle_event m e s) = trps s \<and> trpName (handle_event m e s) = trpName s"
  by (cases e) (auto simp: Let_def split: mouse_button.splits)

lemma handle_events_panel [simp]:
  "trps (handle_events evs s) = trps s \<and> trpName (handle_events evs s) = trpName s"
  by (induction evs s rule: handle_events.induct) auto

lemma handle_event_sets_mono:
  "userSet s \<Longrightarrow> userSet (handle_event m e s)" "targetSet s \<Longrightarrow> targetSet (handle_event m e s)"
  by (cases e; auto simp: Let_def split: mouse_button.splits)+

lemma handle_event_view:
  "view_size_pos (mapView s) \<Longrightarrow> view_size_pos (mapView (handle_event m e s))"
  "view_square (mapView s) \<Longrightarrow> view_square (mapView (handle_event m e s))"
  by (cases e; auto simp: Let_def view_size_pos_move view_size_pos_zoom view_square_move
      view_square_zoom split: mouse_button.splits)+

lemma handle_event_inv: "app_inv s \<Longrightarrow> app_inv (handle_event m e s)"
  unfolding app_inv_def names_nonempty_def
  using handle_event_sets_mono [of s m e] handle_event_view [of s m e] by auto

lemma handle_events_inv: "app_inv s \<Longrightarrow> app_inv (handle_events evs s)"
  by (induction evs s rule: handle_events.induct) (auto intro: handle_event_inv)

lemma ui_step_inv: "app_inv s \<Longrightarrow> app_inv (ui_step ui s)"
proof (cases ui)
  case (EditName n)
  assume "app_inv s"
  then show ?thesis using EditName edit_trp_name_length [of n s]
    by (auto simp: app_inv_def names_nonempty_def edit_trp_name_def)
next
  case ClickSave
  assume inv: "app_inv s"
  let ?s' = "save_trp (userSet s) (targetSet s) (userPos s) (targetPos s) s"
  have "names_nonempty ?s'" using inv by (simp add: app_inv_def save_trp_names_nonempty)
  moreover have "length (trpName ?s') \<le> 63" using inv by (simp add: app_inv_def save_trp_name_length)
  moreover have "(trps ?s' = [] \<or> userSet ?s' \<and> targetSet ?s')
                 \<and> view_size_pos (mapView ?s') \<and> view_square (mapView ?s')"
    using inv by (auto simp: app_inv_def save_trp_def)
  ultimately show ?thesis using ClickSave by (simp add: app_inv_def)
next
  case (ClickTRP i)
  assume "app_inv s"
  then show ?thesis using ClickTRP
    by (auto simp: app_inv_def names_nonempty_def split: option.splits)
qed (auto simp: app_inv_def names_nonempty_def)

lemma ui_step_view [simp]: "mapView (ui_step ui s) = mapView s"
  by (cases ui) (auto simp: edit_trp_name_def save_trp_def split: option.splits)

lemma ui_step_win [simp]: "winSize (ui_step ui s) = winSize s"
  by (cases ui) (auto simp: edit_trp_name_def save_trp_def split: option.splits)

lemma ui_step_user:
  "(\<And>i. ui \<noteq> ClickTRP i) \<Longrightarrow> userPos (ui_step ui s) = userPos s \<and> userSet (ui_step ui s) = userSet s"
  by (cases ui) (auto simp: edit_trp_name_def save_trp_def)

lemma frame_inv: "app_inv s \<Longrightarrow> app_inv (snd (frame evs ui s))"
  by (simp add: frame_def Let_def ui_step_inv handle_events_inv)

lemma init_app_inv: "app_inv init_app"
  by (simp add: app_inv_def init_app_def names_nonempty_def view_size_pos_initial
      view_square_initial)

lemma reachable_app_inv: "reachable s \<Longrightarrow> app_inv s"
  by (induction rule: reachable.induct) (auto intro: init_app_inv frame_inv)


subsection \<open>Reachable states, events and frames\<close>

text \<open>
  C3. In every reachable state every stored TRP has a non-empty name.
\<close>

theorem reachable_names_nonempty: "reachable s \<Longrightarrow> names_nonempty s"
  using reachable_app_inv by (simp add: app_inv_def)

text \<open>
  C14. In every reachable state with a stored TRP, both the user and the
  target position are set: nothing ever unsets them.
\<close>

theorem reachable_trps_positions_set:
  "reachable s \<Longrightarrow> trps s \<noteq> [] \<Longrightarrow> userSet s \<and> targetSet s"
  using reachable_app_inv by (auto simp: app_inv_def)

text \<open>
  C17. In every reachable state the map view has a positive width and
  height: zooming multiplies them by positive factors.
\<close>

theorem reachable_view_size_pos: "reachable s \<Longrightarrow> view_size_pos (mapView s)"
  using reachable_app_inv by (simp add: app_inv_def)

text \<open>
  C16. In every reachable state the name buffer holds at most 63
  characters, so the 64-byte buffer keeps its terminating NUL.
\<close>

theorem reachable_name_length: "reachable s \<Longrightarrow> length (trpName s) \<le> 63"
  using reachable_app_inv by (simp add: app_inv_def)

lemma ui_step_prefix: "prefix (trps s) (trps (ui_step ui s))"
  by (cases ui) (auto simp: save_trp_prefix edit_trp_name_def split: option.splits)

text \<open>
  C15. A frame only appends to the list of stored TRPs: the list before the
  frame is a prefix of the list after it (no entry is changed or removed).
\<close>

theorem frame_trps_prefix: "prefix (trps s) (trps (snd (frame evs ui s)))"
  using ui_step_prefix [of "handle_events evs s" ui] by (simp add: frame_def Let_def)

lemma recall_trp_handle_events [simp]: "recall_trp i (handle_events evs s) = recall_trp i s"
  by (simp add: recall_trp_def)

lemma handle_events_closed: "\<not> windowOpen s \<Longrightarrow> handle_events es s = s"
  by (cases es) auto

text \<open>
  C4. Saving the current positions under a name and clicking the new entry's
  button in a later frame restores exactly the saved user and target
  positions, whatever events the later frame handled before the click.
\<close>

theorem save_then_recall:
  assumes "userSet (handle_events evs s) \<and> targetSet (handle_events evs s) \<and> trpName s \<noteq> []"
  shows "let s1 = handle_events evs s;
             s2 = snd (frame evs2 (ClickTRP (length (trps s))) (snd (frame evs ClickSave s)))
         in userPos s2 = userPos s1 \<and> targetPos s2 = targetPos s1 \<and> userSet s2 \<and> targetSet s2"
proof -
  let ?s1 = "handle_events evs s"
  let ?s' = "snd (frame evs ClickSave s)"
  have acc: "userSet ?s1 \<and> targetSet ?s1 \<and> trpName ?s1 \<noteq> []" using assms by simp
  have "?s' = save_trp (userSet ?s1) (targetSet ?s1) (userPos ?s1) (targetPos ?s1) ?s1"
    by (simp add: frame_def Let_def)
  then have "recall_trp (length (trps s)) ?s' = Some (userPos ?s1, targetPos ?s1)"
    using recall_trp_save_new [OF acc] by simp
  then have "recall_trp (length (trps s)) (handle_events evs2 ?s') = Some (userPos ?s1, targetPos ?s1)"
    by (simp only: recall_trp_handle_events)
  then show ?thesis by (simp add: frame_def Let_def)
qed

text \<open>
  C19. A left click inside the map area sets the user position to the world
  point under the cursor and marks it set.
\<close>

theorem press_left_sets_user:
  assumes "in_map_area m"
  shows "userPos (handle_event m (MouseButtonPressed Left) s) = mapPixelToCoords (winSize s) m (mapView s)
         \<and> userSet (handle_event m (MouseButtonPressed Left) s)"
  using assms by (simp add: Let_def)

text \<open>
  C20. A button press outside the map area (pixel x or y at least 600)
  changes nothing.
\<close>

theorem press_outside_ignored:
  assumes "\<not> in_map_area m"
  shows "handle_event m (MouseButtonPressed b) s = s"
  using assms by (simp add: Let_def)

text \<open>
  C18. While dragging, a mouse move shifts the view so that the world point
  under the previous cursor position is under the new one.
\<close>

theorem drag_keeps_cursor_point:
  assumes "dragging s"
  shows "mapPixelToCoords (winSize s) m (mapView (handle_event m MouseMoved s))
         = mapPixelToCoords (winSize s) (lastDrag s) (mapView s)"
  using assms by (simp add: Let_def drag_keeps_point)

text \<open>
  C22. A wheel step in followed by a wheel step out does not restore the
  view: the centre is kept, but the size shrinks by the factor
  \<open>0.9f * 1.1f < 1\<close>.
\<close>

theorem zoom_in_out_shrinks:
  assumes "x < 600 \<and> y < 600" and "0 < d1" and "d2 \<le> 0" and "view_size_pos (mapView s)"
  shows "let s' = handle_event m' (MouseWheelScrolled d2 x y) (handle_event m (MouseWheelScrolled d1 x y) s)
         in viewCenter (mapView s') = viewCenter (mapView s)
            \<and> fst (viewSize (mapView s')) < fst (viewSize (mapView s))
            \<and> snd (viewSize (mapView s')) < snd (viewSize (mapView s))"
proof -
  have z: "mapView (handle_event m' (MouseWheelScrolled d2 x y) (handle_event m (MouseWheelScrolled d1 x y) s))
           = view_zoom (ZOOM_IN_F * ZOOM_OUT_F) (mapView s)"
    using assms(1-3) by (simp add: view_zoom_zoom)
  show ?thesis
    unfolding Let_def z using assms(4) zoom_factors_not_inverse
    by (simp add: view_zoom_def view_size_pos_def mult_less_cancel_left1)
qed

text \<open>
  C23. A Closed event closes the window and the events queued after it in
  the same frame are not handled.
\<close>

theorem closed_drops_events:
  "windowOpen s \<Longrightarrow> handle_events ((m, Closed) # es) s = s\<lparr>windowOpen := False\<rparr>"
  by (simp add: handle_events_closed)

text \<open>
  C24. Until both positions are set, the displayed solution is all zeros.
\<close>

theorem solution_unset:
  "\<not> (userSet s \<and> targetSet s) \<Longrightarrow> compute_solution s = zero_solution"
  by (auto simp: compute_solution_def)

text \<open>
  C25. The solution displayed in a frame does not depend on the panel
  interaction of that frame: a new velocity, a save or a recall shows only
  in the next frame.
\<close>

theorem frame_solution_ignores_ui: "fst (frame evs ui s) = fst (frame evs ui' s)"
  by (simp add: frame_def Let_def)

text \<open>
  C36. A click on the button of a stored TRP shows in the next frame: if
  that frame handles no event, it displays the firing solution of the
  recalled user and target positions at the current velocity.
\<close>

theorem recall_shown_next_frame:
  assumes "i < length (trps s)"
  shows "fst (frame [] ui' (snd (frame evs (ClickTRP i) s)))
         = solve (user (trps s ! i)) (target (trps s ! i)) (velocity (handle_events evs s))"
  using assms by (simp add: frame_def compute_solution_def recall_trp_def Let_def)

end
