(* ===== verification/Render.thy ===== *)
theory Render
  imports Prelude "HOL-Library.While_Combinator"
begin

text \<open>
  The map grid of the drawing code (source lines 146--152): the loop
  \<^verbatim>\<open>for (int i = 0; i <= 600; i += 60)\<close> appends four vertices per step,
  the two ends of a vertical and of a horizontal line, all in the grid
  colour \<open>(100, 100, 100)\<close>. The loop is a \<^theory_text>\<open>function\<close> of the loop
  counter with the measure \<open>601 - i\<close>; the lemmas give the number of
  vertices of every run of the loop and the square they lie in. The rest
  of the drawing code, which draws this grid, is in \<^theory_text>\<open>Draw\<close>.
\<close>

type_synonym color = "nat \<times> nat \<times> nat"

definition GRID_COLOR :: color where
  "GRID_COLOR = (100, 100, 100)"

function grid_from :: "int \<Rightarrow> (vec2f \<times> color) list" where
  "grid_from i =
     (if i \<le> 600
      then [((of_int i, 0), GRID_COLOR), ((of_int i, 600), GRID_COLOR),
            ((0, of_int i), GRID_COLOR), ((600, of_int i), GRID_COLOR)] @ grid_from (i + 60)
      else [])"
  by pat_completeness auto
termination
  by (relation "measure (\<lambda>i. nat (601 - i))") auto

definition grid :: "(vec2f \<times> color) list" where
  "grid = grid_from 0"

text \<open>
  The same loop as it is written, a \<^verbatim>\<open>for\<close> loop over the counter and the
  vertex array, with \<open>while_option\<close>: \<open>None\<close> would be a loop that does
  not end.
\<close>

definition grid_step ::
  "int \<times> (vec2f \<times> color) list \<Rightarrow> int \<times> (vec2f \<times> color) list" where
  "grid_step st =
     (let (i, vs) = st
      in (i + 60, vs @ [((of_int i, 0), GRID_COLOR), ((of_int i, 600), GRID_COLOR),
                        ((0, of_int i), GRID_COLOR), ((600, of_int i), GRID_COLOR)]))"

definition grid_loop :: "int \<Rightarrow> (vec2f \<times> color) list \<Rightarrow> (int \<times> (vec2f \<times> color) list) option" where
  "grid_loop i vs = while_option (\<lambda>(i, _). i \<le> 600) grid_step (i, vs)"

declare grid_from.simps [simp del]

text \<open>
  C31. The grid loop terminates from every value of its counter and every
  vertex array: it ends with the first counter above 600 and the array
  extended by the vertices of the recursive \<open>grid_from\<close>.
\<close>

theorem grid_loop_terminates:
  "grid_loop i vs = Some (if i \<le> 600 then i + 60 * ((600 - i) div 60 + 1) else i, vs @ grid_from i)"
proof (induction i arbitrary: vs rule: grid_from.induct)
  case (1 i)
  show ?case
  proof (cases "i \<le> 600")
    case True
    have "grid_loop i vs = grid_loop (i + 60) (vs @ [((of_int i, 0), GRID_COLOR), ((of_int i, 600), GRID_COLOR),
                        ((0, of_int i), GRID_COLOR), ((600, of_int i), GRID_COLOR)])"
      using True by (simp add: grid_loop_def while_option_unfold [of _ grid_step] grid_step_def)
    also have "\<dots> = Some (if i \<le> 600 then i + 60 * ((600 - i) div 60 + 1) else i, vs @ grid_from i)"
    proof (cases "i + 60 \<le> 600")
      case True
      then have "(600 - i) div 60 = (600 - (i + 60)) div 60 + 1"
        by (simp add: div_add_self2 [symmetric] algebra_simps)
      with "1" \<open>i \<le> 600\<close> True show ?thesis by (simp add: grid_from.simps [of i] algebra_simps)
    next
      case False
      then have "(600 - i) div 60 = 0" using \<open>i \<le> 600\<close> by simp
      with "1" \<open>i \<le> 600\<close> False show ?thesis by (simp add: grid_from.simps [of i] grid_from.simps [of "i + 60"])
    qed
    finally show ?thesis .
  next
    case False
    then show ?thesis by (simp add: grid_loop_def while_option_unfold [of _ grid_step] grid_from.simps [of i])
  qed
qed

text \<open>
  C32. The grid loop started at \<open>i \<le> 600\<close> runs \<open>(600 - i) div 60 + 1\<close>
  times and appends four vertices each time; started above 600 it appends
  nothing. From 0 it draws 44 vertices, 22 lines.
\<close>

lemma grid_from_length:
  "length (grid_from i) = (if i \<le> 600 then 4 * (nat ((600 - i) div 60) + 1) else 0)"
proof (induction i rule: grid_from.induct)
  case (1 i)
  show ?case
  proof (cases "i \<le> 600")
    case True
    show ?thesis
    proof (cases "i + 60 \<le> 600")
      case True
      then have "nat ((600 - i) div 60) = nat ((600 - (i + 60)) div 60) + 1"
        by (simp add: nat_add_distrib [symmetric] div_add_self2 [symmetric] algebra_simps)
      with "1" \<open>i \<le> 600\<close> True show ?thesis by (simp add: grid_from.simps [of i])
    next
      case False
      then have "(600 - i) div 60 = 0" using \<open>i \<le> 600\<close> by simp
      with "1" \<open>i \<le> 600\<close> False show ?thesis by (simp add: grid_from.simps [of i])
    qed
  next
    case False
    then show ?thesis by (simp add: grid_from.simps [of i])
  qed
qed

text \<open>
  C33. Every vertex of the grid lies in the square \<open>[0, 600]\<^sup>2\<close> of world
  coordinates and has the grid colour.
\<close>

lemma grid_from_in_square:
  "0 \<le> i \<Longrightarrow> (p, c) \<in> set (grid_from i)
   \<Longrightarrow> 0 \<le> fst p \<and> fst p \<le> 600 \<and> 0 \<le> snd p \<and> snd p \<le> 600 \<and> c = GRID_COLOR"
proof (induction i rule: grid_from.induct)
  case (1 i)
  show ?case
  proof (cases "i \<le> 600")
    case True
    with "1.prems" have "(p, c) \<in> set [((of_int i, 0), GRID_COLOR), ((of_int i, 600), GRID_COLOR),
        ((0, of_int i), GRID_COLOR), ((600, of_int i), GRID_COLOR)] \<or> (p, c) \<in> set (grid_from (i + 60))"
      by (simp add: grid_from.simps [of i])
    then show ?thesis
    proof
      assume "(p, c) \<in> set [((of_int i, 0), GRID_COLOR), ((of_int i, 600), GRID_COLOR),
        ((0, of_int i), GRID_COLOR), ((600, of_int i), GRID_COLOR)]"
      with True "1.prems"(1) show ?thesis by auto
    next
      assume "(p, c) \<in> set (grid_from (i + 60))"
      with True "1.prems"(1) show ?thesis by (intro "1.IH") auto
    qed
  next
    case False
    with "1.prems" show ?thesis by (simp add: grid_from.simps [of i])
  qed
qed

theorem grid_from_in_square_witness:
  "0 \<le> (0::int) \<and> ((0, 600), GRID_COLOR) \<in> set (grid_from 0)
   \<and> 0 \<le> fst (0::real, 600::real) \<and> fst (0::real, 600::real) \<le> 600
   \<and> 0 \<le> snd (0::real, 600::real) \<and> snd (0::real, 600::real) \<le> 600 \<and> GRID_COLOR = GRID_COLOR"
proof -
  have m: "((0, 600), GRID_COLOR) \<in> set (grid_from 0)"
    by (subst grid_from.simps) simp
  show ?thesis using m grid_from_in_square [OF _ m] by simp
qed

lemma grid_length: "length grid = 44"
  by (simp add: grid_def grid_from.simps)

end
