(* ===== verification/Draw.thy ===== *)
theory Draw
  imports App Render
begin

text \<open>
  The drawing code at the end of each frame (source lines 141--169) as a list
  of SFML calls, and SFML's render target as an interpreter of that list:
  \<^verbatim>\<open>setView\<close> replaces the current view, and every later vertex is put on
  the screen through that view and the current window size
  (\<open>world_to_pixel\<close>). The grid and the two
  markers are drawn with the map view, the ImGui panel after the default view
  is restored. The screen is the list of what was drawn, in pixel
  coordinates; rasterisation is not modelled. A circle shape
  (\<^verbatim>\<open>sf::CircleShape(8)\<close> with origin \<open>(8, 8)\<close>) is centred at its position
  and, through a view that scales x and y differently, becomes an ellipse on
  the screen with two pixel radii.
\<close>

definition BG_COLOR :: color where
  "BG_COLOR = (30, 30, 30)"  \<comment> \<open>\<^verbatim>\<open>sf::Color(30, 30, 30)\<close>\<close>

definition BLUE :: color where
  "BLUE = (0, 0, 255)"  \<comment> \<open>\<^verbatim>\<open>sf::Color::Blue\<close>\<close>

definition RED :: color where
  "RED = (255, 0, 0)"  \<comment> \<open>\<^verbatim>\<open>sf::Color::Red\<close>\<close>

definition MARKER_R :: real where
  "MARKER_R = 8"

text \<open>
  \<^verbatim>\<open>window.getDefaultView()\<close>: the view of the whole window as it was
  created, 1200 x 700; SFML does not change it when the window is resized.
\<close>

definition default_view :: view where
  "default_view = \<lparr>viewCenter = (WIN_W / 2, WIN_H / 2), viewSize = (WIN_W, WIN_H)\<rparr>"

datatype draw_cmd =
    Clear color
  | SetView view
  | DrawLines "(vec2f \<times> color) list"
  | DrawCircle real vec2f vec2f color  \<comment> \<open>radius, origin, position, fill colour\<close>
  | RenderImGui
  | Display

text \<open>A marker: \<^verbatim>\<open>CircleShape(8)\<close>, filled, origin \<open>(8, 8)\<close>, at a position.\<close>

definition marker :: "color \<Rightarrow> vec2f \<Rightarrow> draw_cmd" where
  "marker c p = DrawCircle MARKER_R (MARKER_R, MARKER_R) p c"

definition draw_frame :: "app \<Rightarrow> draw_cmd list" where
  "draw_frame s =
     [Clear BG_COLOR, SetView (mapView s), DrawLines grid]
     @ (if userSet s then [marker BLUE (userPos s)] else [])
     @ (if targetSet s then [marker RED (targetPos s)] else [])
     @ [SetView default_view, RenderImGui, Display]"

datatype screen_item =
    SClear color
  | SLines "(vec2f \<times> color) list"
  | SEllipse vec2f vec2f color  \<comment> \<open>centre pixel, pixel radii, colour\<close>
  | SImGui
  | SShow

text \<open>
  The render target of a window of size \<open>win\<close>: the current view, changed
  by \<^verbatim>\<open>setView\<close>, maps what is drawn to pixels. The local centre of a circle of radius \<open>r\<close> is
  \<open>(r, r)\<close>; its transform moves the origin to the position.
\<close>

fun render :: "vec2f \<Rightarrow> view \<Rightarrow> draw_cmd list \<Rightarrow> screen_item list" where
  "render win v [] = []"
| "render win v (Clear c # cs) = SClear c # render win v cs"
| "render win v (SetView v' # cs) = render win v' cs"
| "render win v (DrawLines ps # cs) =
     SLines (map (\<lambda>(p, c). (world_to_pixel win p v, c)) ps) # render win v cs"
| "render win v (DrawCircle r org p c # cs) =
     SEllipse (world_to_pixel win (vadd (vsub p org) (r, r)) v)
              (r * fst win / fst (viewSize v), r * snd win / snd (viewSize v)) c # render win v cs"
| "render win v (RenderImGui # cs) = SImGui # render win v cs"
| "render win v (Display # cs) = SShow # render win v cs"

definition screen :: "app \<Rightarrow> screen_item list" where
  "screen s = render (winSize s) default_view (draw_frame s)"

definition is_ellipse :: "screen_item \<Rightarrow> bool" where
  "is_ellipse i \<longleftrightarrow> (case i of SEllipse _ _ _ \<Rightarrow> True | _ \<Rightarrow> False)"

definition marker_radii :: "vec2f \<Rightarrow> view \<Rightarrow> vec2f" where
  "marker_radii win v = (MARKER_R * fst win / fst (viewSize v), MARKER_R * snd win / snd (viewSize v))"

subsection \<open>What the frame puts on the screen\<close>

lemma circle_centre [simp]: "vadd (vsub p (r, r)) (r, r) = p"
  by (simp add: vadd_def vsub_def)

text \<open>
  The markers on the screen of a frame: one blue ellipse at the pixel of the
  user position if it is set, then one red ellipse at the pixel of the target
  position if it is set, both through the map view.
\<close>

lemma screen_markers:
  "filter is_ellipse (screen s)
   = (if userSet s
      then [SEllipse (world_to_pixel (winSize s) (userPos s) (mapView s)) (marker_radii (winSize s) (mapView s)) BLUE]
      else [])
     @ (if targetSet s
        then [SEllipse (world_to_pixel (winSize s) (targetPos s) (mapView s)) (marker_radii (winSize s) (mapView s)) RED]
        else [])"
  by (simp add: screen_def draw_frame_def marker_def is_ellipse_def marker_radii_def)

lemma screen_ellipse:
  "SEllipse c r col \<in> set (screen s)
   \<Longrightarrow> SEllipse c r col \<in> set (filter is_ellipse (screen s))"
  by (simp add: is_ellipse_def)

subsection \<open>Markers and clicks\<close>

text \<open>
  C34. A left click in the map area puts the blue user marker exactly on the
  clicked pixel in the same frame's drawing: the click is turned into a world
  point through the map view and drawn back through the same view. This
  holds for every window and view of positive size and every panel
  interaction of the frame other than a click on a stored TRP.
\<close>

theorem click_marker_at_pixel:
  assumes "windowOpen s" and "in_map_area p" and "win_size_pos (winSize s)"
    and "view_size_pos (mapView s)" and "\<And>i. ui \<noteq> ClickTRP i"
  shows "SEllipse (of_int (fst p), of_int (snd p)) (marker_radii (winSize s) (mapView s)) BLUE
         \<in> set (screen (snd (frame [(p, MouseButtonPressed Left)] ui s)))"
proof -
  define s1 where "s1 = ui_step ui (handle_event p (MouseButtonPressed Left) s)"
  have s': "snd (frame [(p, MouseButtonPressed Left)] ui s) = s1"
    using assms(1) by (simp add: frame_def Let_def s1_def)
  have v: "mapView s1 = mapView s \<and> winSize s1 = winSize s" by (simp add: s1_def Let_def)
  have u: "userPos s1 = mapPixelToCoords (winSize s) p (mapView s) \<and> userSet s1"
    using ui_step_user [OF assms(5)] assms(2) by (simp add: s1_def Let_def)
  have "SEllipse (world_to_pixel (winSize s1) (userPos s1) (mapView s1))
          (marker_radii (winSize s1) (mapView s1)) BLUE \<in> set (filter is_ellipse (screen s1))"
    by (simp add: screen_markers u)
  then show ?thesis by (simp add: s' v u world_to_pixel_mapPixelToCoords [OF assms(3,4)])
qed

text \<open>
  C35. In every reachable state each marker on the screen has the aspect
  ratio of the window: the view stays square while SFML stretches it over
  the whole window, so the circles of radius 8 are drawn round only in a
  square window; at the 1200 x 700 size the window opens with they are
  \<open>12 / 7\<close> times wider than high.
\<close>

theorem reachable_markers_window_aspect:
  assumes "reachable s" and "win_size_pos (winSize s)" and "SEllipse c r col \<in> set (screen s)"
  shows "fst r / snd r = fst (winSize s) / snd (winSize s)"
proof -
  have sq: "view_square (mapView s)" and pos: "view_size_pos (mapView s)"
    using reachable_app_inv [OF assms(1)] by (simp_all add: app_inv_def)
  have "r = marker_radii (winSize s) (mapView s)"
    using screen_ellipse [OF assms(3)] by (auto simp: screen_markers split: if_splits)
  then show ?thesis using sq pos assms(2)
    by (simp add: marker_radii_def view_square_def view_size_pos_def win_size_pos_def MARKER_R_def)
qed

end
