(* ===== verification/Display.thy ===== *)
theory Display
  imports App
begin

text \<open>
  The text of the ImGui panel (source lines 115--118 and 128--132). The four
  \<^verbatim>\<open>ImGui::Text\<close> lines format the floats of the solution with \<^verbatim>\<open>%.2f\<close>;
  ImGui formats through the C library's \<^verbatim>\<open>vsnprintf\<close>, which prints the
  exact value of the float promoted to double, rounded to two decimals with
  ties to even, with a minus sign for a negative value (also when it rounds
  to zero). The spelling of the non-finite values is the C library's:
  \<^verbatim>\<open>inf\<close> and \<^verbatim>\<open>-inf\<close>, and for NaN \<^verbatim>\<open>nan\<close> or, with the sign bit
  that x86 sets on \<open>0/0\<close>, \<^verbatim>\<open>-nan\<close> (glibc) or \<^verbatim>\<open>-nan(ind)\<close> (MSVC).
  The sign of a NaN is not modelled: every NaN is written \<^verbatim>\<open>nan\<close>, and no
  theorem depends on that spelling.
  The buttons of the stored points show their names as ImGui labels: the
  text before the first \<^verbatim>\<open>##\<close>, the rest only feeding the widget's ID.
  A reading function for the printed numbers is the specification of the
  format: it reads back every printed value within half a hundredth.
\<close>

subsection \<open>Decimal digits\<close>

definition digit_char :: "nat \<Rightarrow> char" where
  "digit_char d = ''0123456789'' ! d"

fun nat_digits :: "nat \<Rightarrow> string" where
  "nat_digits n = (if n < 10 then [digit_char n] else nat_digits (n div 10) @ [digit_char (n mod 10)])"

declare nat_digits.simps [simp del]

text \<open>Rounding to the nearest integer, ties to even, of a non-negative real.\<close>

definition round_half_even :: "real \<Rightarrow> nat" where
  "round_half_even y =
     (let n = nat \<lfloor>y\<rfloor>; f = y - real n
      in if f < 1 / 2 then n else if 1 / 2 < f then n + 1 else if even n then n else n + 1)"

text \<open>\<^verbatim>\<open>%.2f\<close> of a finite value.\<close>

definition fmt_fixed2 :: "real \<Rightarrow> string" where
  "fmt_fixed2 x =
     (let n = round_half_even (\<bar>x\<bar> * 100)
      in (if x < 0 then ''-'' else []) @ nat_digits (n div 100) @ ''.''
         @ [digit_char (n div 10 mod 10), digit_char (n mod 10)])"

fun fmt_f2 :: "fval \<Rightarrow> string" where
  "fmt_f2 (Fin x) = fmt_fixed2 x"
| "fmt_f2 (Infty s) = (if s then ''inf'' else ''-inf'')"
| "fmt_f2 NaN = ''nan''"

subsection \<open>The panel\<close>

text \<open>The four text lines of the solution, lines 115--118.\<close>

definition panel_text :: "solution \<Rightarrow> string list" where
  "panel_text sol =
     [''Elevation: '' @ fmt_f2 (elevLow sol) @ '' (low) / '' @ fmt_f2 (elevHigh sol) @ '' (high)'',
      ''Azimuth: '' @ fmt_fixed2 (sAz sol),
      ''Distance: '' @ fmt_fixed2 (sDist sol) @ '' m'',
      ''Time of Flight: '' @ fmt_f2 (tofLow sol) @ '' (low) / '' @ fmt_f2 (tofHigh sol) @ '' (high)'']"

text \<open>The visible part of an ImGui label: the text before the first \<^verbatim>\<open>##\<close>.\<close>

fun label_text :: "string \<Rightarrow> string" where
  "label_text [] = []"
| "label_text [c] = [c]"
| "label_text (c # d # cs) = (if c = CHR ''#'' \<and> d = CHR ''#'' then [] else c # label_text (d # cs))"

text \<open>The list of stored points under the separator, lines 128--132.\<close>

definition trp_buttons :: "TRP list \<Rightarrow> string list" where
  "trp_buttons ts = ''TRPs:'' # map (\<lambda>t. label_text (name t)) ts"

subsection \<open>Reading a printed number back\<close>

definition isdigit :: "char \<Rightarrow> bool" where
  "isdigit c \<longleftrightarrow> 48 \<le> (of_char c :: nat) \<and> (of_char c :: nat) \<le> 57"

fun digits_val :: "nat \<Rightarrow> string \<Rightarrow> nat" where
  "digits_val acc [] = acc"
| "digits_val acc (c # cs) = digits_val (10 * acc + (of_char c - 48)) cs"

definition read_fixed2 :: "string \<Rightarrow> real option" where
  "read_fixed2 s =
     (let neg = (s \<noteq> [] \<and> hd s = CHR ''-'');
          t = (if neg then tl s else s);
          ip = takeWhile isdigit t;
          fp = dropWhile isdigit t
      in if ip \<noteq> [] \<and> length fp = 3 \<and> hd fp = CHR ''.'' \<and> list_all isdigit (tl fp)
         then Some ((if neg then -1 else 1) * (real (digits_val 0 ip) + real (digits_val 0 (tl fp)) / 100))
         else None)"

subsection \<open>Printing and reading back\<close>

lemma digit_char_code: "d < 10 \<Longrightarrow> of_char (digit_char d) = 48 + (d::nat)"
  by (auto simp: digit_char_def less_Suc_eq numeral_eq_Suc)

lemma digit_char_isdigit [simp]: "d < 10 \<Longrightarrow> isdigit (digit_char d)"
  by (simp add: isdigit_def digit_char_code)

lemma digit_char_val [simp]: "d < 10 \<Longrightarrow> of_char (digit_char d) - 48 = d"
  by (simp add: digit_char_code)

lemma not_digit_point [simp]: "\<not> isdigit CHR ''.''" and not_digit_minus [simp]: "\<not> isdigit CHR ''-''"
  by (simp_all add: isdigit_def)

lemma nat_digits_ne [simp]: "nat_digits n \<noteq> []"
  by (subst nat_digits.simps) simp

lemma nat_digits_digits [simp]: "list_all isdigit (nat_digits n)"
  by (induction n rule: nat_digits.induct) (subst nat_digits.simps; simp)

lemma digits_val_append: "digits_val acc (xs @ ys) = digits_val (digits_val acc xs) ys"
  by (induction acc xs rule: digits_val.induct) simp_all

lemma digits_val_nat_digits [simp]: "digits_val 0 (nat_digits n) = n"
  by (induction n rule: nat_digits.induct) (subst nat_digits.simps; simp add: digits_val_append)

lemma takeWhile_digits [simp]:
  "list_all isdigit xs \<Longrightarrow> \<not> isdigit c \<Longrightarrow> takeWhile isdigit (xs @ c # ys) = xs"
  by (induction xs) simp_all

lemma dropWhile_digits [simp]:
  "list_all isdigit xs \<Longrightarrow> \<not> isdigit c \<Longrightarrow> dropWhile isdigit (xs @ c # ys) = c # ys"
  by (induction xs) simp_all

lemma hd_nat_digits_not_minus: "hd (nat_digits n @ ys) \<noteq> CHR ''-''"
proof -
  have "isdigit (hd (nat_digits n))" using nat_digits_digits [of n]
    by (cases "nat_digits n") simp_all
  then show ?thesis by (auto simp: hd_append)
qed

lemma round_half_even_bound:
  assumes "0 \<le> y"
  shows "\<bar>real (round_half_even y) - y\<bar> \<le> 1 / 2"
proof -
  have fl: "of_int \<lfloor>y\<rfloor> \<le> y" "y < of_int \<lfloor>y\<rfloor> + 1" "0 \<le> \<lfloor>y\<rfloor>"
    using assms by (simp_all add: of_int_floor_le)
  show ?thesis
    using assms by (auto simp: round_half_even_def Let_def abs_if) (use fl in linarith)+
qed

text \<open>The value that \<open>fmt_fixed2\<close> prints.\<close>

lemma read_fmt_fixed2:
  "read_fixed2 (fmt_fixed2 x)
   = Some ((if x < 0 then -1 else 1) * (real (round_half_even (\<bar>x\<bar> * 100)) / 100))"
proof -
  define n where "n = round_half_even (\<bar>x\<bar> * 100)"
  have "n mod 100 = 10 * (n div 10 mod 10) + n mod 10"
    using mod_mult2_eq [of n 10 10] by simp
  then have d: "n = 100 * (n div 100) + 10 * (n div 10 mod 10) + n mod 10"
    using div_mult_mod_eq [of n 100] by linarith
  have e: "real n = 100 * real (n div 100) + 10 * real (n div 10 mod 10) + real (n mod 10)"
    using arg_cong [OF d, of real] by simp
  show ?thesis
    using hd_nat_digits_not_minus [of "n div 100"]
    by (simp add: read_fixed2_def fmt_fixed2_def Let_def n_def [symmetric] e add_divide_distrib)
qed

text \<open>
  A stored name is shown in full on its button exactly when it has no
  \<^verbatim>\<open>##\<close>; the name check of "Save TRP" (\<^verbatim>\<open>strlen > 0\<close>) lets a name
  such as \<^verbatim>\<open>##1\<close> through, whose button is blank.
\<close>

lemma label_text_full: "label_text n = n \<longleftrightarrow> \<not> sublist ''##'' n"
  by (induction n rule: label_text.induct) (auto simp: sublist_Cons_right)

lemma trp_button_blank:
  "trp_buttons [\<lparr>user = (10, 10), target = (500, 800), name = ''##1''\<rparr>] = [''TRPs:'', []]"
  by (simp add: trp_buttons_def)

lemma fmt_fixed2_zero [simp]: "fmt_fixed2 0 = ''0.00''"
  by (simp add: fmt_fixed2_def round_half_even_def nat_digits.simps digit_char_def)

subsection \<open>What the panel shows\<close>

text \<open>
  C37. Every finite value is displayed with \<^verbatim>\<open>%.2f\<close> as a text that reads
  back as a number within half a hundredth of the value: the display loses
  nothing but the rounding to two decimals.
\<close>

theorem fmt_fixed2_read_back: "\<exists>r. read_fixed2 (fmt_fixed2 x) = Some r \<and> \<bar>r - x\<bar> \<le> 1 / 200"
proof -
  define y where "y = \<bar>x\<bar> * 100"
  have b: "\<bar>real (round_half_even y) - y\<bar> \<le> 1 / 2"
    by (rule round_half_even_bound) (simp add: y_def)
  let ?r = "(if x < 0 then -1 else 1) * (real (round_half_even y) / 100)"
  have eq: "\<bar>?r - x\<bar> = \<bar>real (round_half_even y) - y\<bar> / 100"
    by (auto simp: y_def abs_if field_simps)
  show ?thesis
  proof (intro exI conjI)
    show "read_fixed2 (fmt_fixed2 x) = Some ?r" by (simp add: read_fmt_fixed2 y_def)
    show "\<bar>?r - x\<bar> \<le> 1 / 200" using eq b by simp
  qed
qed

text \<open>
  C38. For a target out of range the panel shows the elevation line of a
  flat shot, "Elevation: 0.00 (low) / 0.00 (high)": the sentinel of the solver
  reaches the screen as a valid-looking angle.
\<close>

theorem out_of_range_display:
  assumes "discr (distance u t) v GRAVITY_F < 0"
  shows "hd (panel_text (solve u t v)) = ''Elevation: 0.00 (low) / 0.00 (high)''"
  using assms by (simp add: panel_text_def solve_def elevation_def discr_def Let_def)

end
