(* ===== verification/Spec2Isabelle.thy ===== *)
theory Spec2Isabelle
  imports Draw Display
begin

text \<open>
  \<^bold>\<open>ArtilleryMaster_Build2: a verification library.\<close>

  \<^medskip>\<^noindent>\<^bold>\<open>The program.\<close> \<^verbatim>\<open>src/ArtilleryMaster_Build2/ArtilleryMaster_Build2.cpp\<close>
  is an SFML/ImGui artillery calculator in one file. Its parts:
  \<^item> the solver, \<^verbatim>\<open>struct ArtilleryMath\<close> (lines 9--28): \<^verbatim>\<open>distance\<close>
    (\<^verbatim>\<open>std::hypot\<close>), \<^verbatim>\<open>azimuth\<close> (\<^verbatim>\<open>std::atan2(dx, dy)\<close> in degrees),
    \<^verbatim>\<open>elevation\<close> (the closed-form launch angle of the flat-ground range
    equation, sentinel 0 when the discriminant is negative) and
    \<^verbatim>\<open>timeOfFlight\<close> (\<open>dist / (velocity cos angle)\<close>);
  \<^item> the TRP registry: \<^verbatim>\<open>struct TRP\<close> (lines 31--34), the vector
    \<^verbatim>\<open>trps\<close>, the name buffer \<^verbatim>\<open>trpName[64]\<close> and the widgets that save
    and recall entries (lines 122--138);
  \<^item> the map view and the input events of \<^verbatim>\<open>main\<close> (lines 41--97): left
    and right clicks set the user and target positions through
    \<^verbatim>\<open>mapPixelToCoords\<close>, the middle button drags the view, the wheel zooms;
    the window, opened at 1200 x 700 with SFML's default (resizable) style,
    can be resized by the user, which \<^verbatim>\<open>pollEvent\<close> records;
  \<^item> the per-frame display (lines 106--119): when both positions are set
    the solver is called with the current velocity and gravity \<^verbatim>\<open>9.81f\<close>
    for both arcs, the results are printed with \<^verbatim>\<open>%.2f\<close>, and the
    velocity field accepts any float;
  \<^item> the drawing code (lines 141--169): the grid and the two markers
    through the map view, then the panel through the default view;
  \<^item> library set-up and shutdown (lines 37--39, 99, 172), which change
    nothing the program reads.
  The components interact only through the local variables of \<^verbatim>\<open>main\<close>:
  the events write the positions and the view, the panel writes the
  velocity, the name and the TRP list, and the display reads them.

  \<^medskip>\<^noindent>\<^bold>\<open>The theories.\<close>
  \<^item> \<^theory_text>\<open>Prelude\<close>: vectors as pairs of reals, the float literals of the
    source as their exact rational values (\<open>PI_F\<close> is \<^verbatim>\<open>3.14159265f\<close>,
    \<open>GRAVITY_F\<close> is \<^verbatim>\<open>9.81f\<close>, the zoom factors \<^verbatim>\<open>0.9f\<close>, \<^verbatim>\<open>1.1f\<close>), and
    the shared facts on \<open>sqrt\<close> and \<open>arctan\<close>.
  \<^item> \<^theory_text>\<open>FloatVal\<close>: \<open>fval\<close>, a float as a real, a signed infinity or NaN,
    with the IEEE rules of \<open>*\<close>, \<open>/\<close>, \<open>atan\<close> and \<open>cos\<close> on them, so that
    the divisions by zero of \<^verbatim>\<open>elevation\<close> and \<^verbatim>\<open>timeOfFlight\<close> give what
    they give at run time and not HOL's \<open>x / 0 = 0\<close>.
  \<^item> \<^theory_text>\<open>Projectile\<close>: the abstract specification: the trajectory
    \<open>traj\<close>, the predicate \<open>hits\<close> (the shell is at the target at the given
    time), with the algebra of the range quadratic.
  \<^item> \<^theory_text>\<open>ArtilleryMath\<close>: one definition per function of the struct
    (\<open>distance\<close>, \<open>azimuth\<close>, \<open>elevation\<close>, \<open>timeOfFlight\<close>) and the C
    functions they call (\<open>hypot\<close>, \<open>atan2\<close>); the solver's theorems.
  \<^item> \<^theory_text>\<open>MapView\<close>: \<^verbatim>\<open>sf::View\<close> as a record (centre, size), SFML's
    \<open>mapPixelToCoords\<close> for a window of a given size, \<open>view_move\<close>,
    \<open>view_zoom\<close> and the map-area guard.
  \<^item> \<^theory_text>\<open>TRPRegistry\<close>: the records \<open>TRP\<close> and \<open>trp_panel\<close> (the vector
    and the name buffer), \<open>edit_trp_name\<close>, \<open>save_trp\<close> and
    \<open>recall_trp\<close>, stated over every extension of \<open>trp_panel\<close>: this is the
    interface the application uses.
  \<^item> \<^theory_text>\<open>App\<close>: the state of \<^verbatim>\<open>main\<close> as the record \<open>app\<close> (extending
    \<open>trp_panel\<close>) with the current window size, one equation of
    \<open>handle_event\<close> per event branch and one for the resize, the
    event queue \<open>handle_events\<close>, \<open>compute_solution\<close>, the panel step
    \<open>ui_step\<close>, one loop iteration \<open>frame\<close>, the reachable states
    \<open>reachable\<close> and their invariant \<open>app_inv\<close>.
  \<^item> \<^theory_text>\<open>Render\<close>: the grid loop of the drawing code as a
    \<^theory_text>\<open>function\<close> of its counter, with its termination measure.
  \<^item> \<^theory_text>\<open>Draw\<close>: the drawing code of a frame as the list of SFML calls
    \<open>draw_frame\<close> (clear, \<^verbatim>\<open>setView\<close>, the grid, the markers, the default
    view, the panel, \<^verbatim>\<open>display\<close>), and the render target as an
    interpreter \<open>render\<close> that keeps the current view and puts what is
    drawn on the screen through SFML's \<open>world_to_pixel\<close> (in
    \<^theory_text>\<open>MapView\<close>, the inverse of \<open>mapPixelToCoords\<close>).
  \<^item> \<^theory_text>\<open>Display\<close>: the panel's text: \<^verbatim>\<open>%.2f\<close> as \<open>fmt_fixed2\<close>
    (round half to even, the digits of the integer part, two decimals) and
    \<open>fmt_f2\<close> with the non-finite spellings, the four solution lines
    \<open>panel_text\<close>, ImGui's label rule \<open>label_text\<close> and the TRP buttons;
    a reader \<open>read_fixed2\<close> of the printed numbers as the format's
    specification.
  \<^item> this theory: the properties that span the solver and the application,
    and a run of the program used by the witnesses.

  \<^medskip>\<^noindent>\<^bold>\<open>What is proved.\<close> For the solver: in range, both arcs are finite and
  the shell fired at the computed angle is at the target at the computed
  time (a refinement of \<open>hits\<close>); the target
  is in range exactly up to the maximum range \<open>v\<^sup>2 / g\<close>; the arcs are
  complementary, the arc labelled low is the steep one, in \<open>[45, 90)\<close>,
  and the arc labelled high is in \<open>(0, 45]\<close>; out of range the
  sentinel 0 and the finite time \<open>dist / v\<close>; at distance 0 a right angle
  and NaN; at velocity 0 an infinite time; negative velocities give
  negative times; distance and azimuth are exact polar coordinates of the
  target, with the azimuth in \<open>(-180 pi / PI_F, 180 pi / PI_F]\<close>. For the
  registry: the save guard, the untouched old entries, and, through the
  application, save-then-recall. For the application: the invariant of the
  reachable states (names non-empty, stored entries imply set positions,
  name buffer within 63 characters, positive and square view) by rule
  induction over frames, which include window resizes, the
  append-only TRP list, the click, drag, zoom and close handlers, the
  map-area guard that leaves half of the initial map unclickable on the
  window as opened (or any wider one), that a
  frame's display does not see that frame's panel interaction, and that a
  recall is displayed in the next frame. For the drawing code: the grid
  loop terminates from every start, runs 11 times from 0 and draws 44
  vertices in the square \<open>[0, 600]\<^sup>2\<close>; a left click puts the user marker
  on the clicked pixel in the same frame, for every window and view; in
  every reachable state the markers have the aspect ratio of the window,
  since the square view is stretched over the whole window: ellipses 12/7
  times wider than high at the size the window opens with, round only in
  a square window. For the
  panel: every finite value is printed so that it reads back within half a
  hundredth, and an unreachable target shows the elevation line of a flat
  shot, \<^verbatim>\<open>Elevation: 0.00 (low) / 0.00 (high)\<close>.

  \<^medskip>\<^noindent>\<^bold>\<open>Loops.\<close> The event queue of a frame is a finite list and is handled
  by structural recursion; the frame loop \<^verbatim>\<open>while (window.isOpen())\<close> is
  the inductive relation \<open>reachable\<close>, which allows any number of frames;
  no fuel is needed. The grid loop \<^verbatim>\<open>for (int i = 0; i <= 600; i += 60)\<close>
  is a \<^theory_text>\<open>function\<close> whose termination is proved with the measure
  \<open>601 - i\<close>; the loop as written, with \<open>while_option\<close>, is shown to
  return from every start with the vertices of that function.
  The digit loop of \<^verbatim>\<open>%.2f\<close> divides by 10 and terminates by the
  function package's size measure.

  \<^medskip>\<^noindent>\<^bold>\<open>Not modelled.\<close> Float rounding and overflow: arithmetic is exact over
  the reals, and the literals are their exact float values, so results that
  depend on one rounding are not claimed (at distance 0 the model's
  \<open>cos\<close> of the right angle is exactly 0, where the float
  \<open>cos(1.5707964f)\<close> is about \<open>-4.4e-8\<close>: no theorem is stated about that
  time of flight). Signed zeros and the sign of NaN, so the C library's
  spelling \<^verbatim>\<open>-nan\<close> is not distinguished from \<^verbatim>\<open>nan\<close>. The
  default view after a resize stays the 1200 x 700 view SFML created, as in
  SFML 2; the resize itself is modelled. ImGui's own event processing, layout
  (lines 102--104, 139) and widget state: the panel is one interaction per
  frame, and the panel's window cannot be moved in the model (the click
  handler does not ask ImGui whether the mouse is over the panel). The
  rasterisation of what is drawn: the screen is the list of shapes in pixel
  coordinates. Library initialisation and shutdown.

  \<^medskip>\<^noindent>\<^bold>\<open>Further work.\<close> Several panel interactions in one frame, in the
  source's order (velocity, name, save, recall); the spec's recommended
  tagged result \<open>Solved | OutOfRange |
  Degenerate\<close> as an abstract interface refined by the sentinel outputs;
  bounds on the rounding of the in-range solution.
\<close>

subsection \<open>A run of the program\<close>

text \<open>
  Spec scenario 3 played through the user interface: a left click at pixel
  \<open>(20, 140)\<close> and a right click at pixel \<open>(200, 280)\<close> set the positions
  \<open>(10, 120)\<close> and \<open>(100, 240)\<close>, 150 m apart; the name "Hill1" is typed
  in the same frame; the next frame clicks "Save TRP".
\<close>

definition scenario_clicks :: "(vec2i \<times> event) list" where
  "scenario_clicks = [((20, 140), MouseButtonPressed Left), ((200, 280), MouseButtonPressed Right)]"

definition scenario_named :: app where
  "scenario_named = snd (frame scenario_clicks (EditName ''Hill1'') init_app)"

definition scenario_saved :: app where
  "scenario_saved = snd (frame [] ClickSave scenario_named)"

lemma scenario_named_eval:
  "scenario_named = init_app\<lparr>trpName := ''Hill1'', userPos := (10, 120), targetPos := (100, 240),
                              userSet := True, targetSet := True\<rparr>"
  by (simp add: scenario_named_def frame_def scenario_clicks_def init_app_def initial_view_def
      mapPixelToCoords_def in_map_area_def WIN_W_def WIN_H_def edit_trp_name_def TRP_NAME_BUF_def
      Let_def)

lemma scenario_saved_eval:
  "scenario_saved = init_app\<lparr>trps := [\<lparr>user = (10, 120), target = (100, 240), name = ''Hill1''\<rparr>],
      userPos := (10, 120), targetPos := (100, 240), userSet := True, targetSet := True\<rparr>"
  by (simp add: scenario_saved_def scenario_named_eval frame_def save_trp_def init_app_def)

lemma reachable_scenario_named: "reachable scenario_named"
  unfolding scenario_named_def by (rule reachable.step [OF reachable.init]) (simp add: init_app_def)

lemma reachable_scenario_saved: "reachable scenario_saved"
  unfolding scenario_saved_def
  by (rule reachable.step [OF reachable_scenario_named]) (simp add: scenario_named_eval init_app_def)

lemma scenario_saved_distance: "distance (userPos scenario_saved) (targetPos scenario_saved) = 150"
proof -
  have "sqrt (22500::real) = sqrt (150\<^sup>2)" by simp
  then show ?thesis by (simp add: scenario_saved_eval init_app_def distance_def hypot_def)
qed

subsection \<open>Properties across the solver and the application\<close>

text \<open>
  C2. Whenever both positions are set, distinct, and the target is in
  range of the current velocity, the solution displayed in the frame gives,
  for each arc, a finite angle and a finite time of flight with which the
  shell is at the target: the display refines the projectile specification.
\<close>

theorem displayed_solution_hits:
  assumes set: "userSet s \<and> targetSet s" and ne: "userPos s \<noteq> targetPos s"
    and r: "0 \<le> discr (distance (userPos s) (targetPos s)) (velocity s) GRAVITY_F"
  shows "\<exists>\<theta>L \<theta>H TL TH.
           elevLow (compute_solution s) = Fin \<theta>L \<and> tofLow (compute_solution s) = Fin TL
         \<and> hits (velocity s) GRAVITY_F (sDist (compute_solution s)) (\<theta>L * PI_F / 180) TL
         \<and> elevHigh (compute_solution s) = Fin \<theta>H \<and> tofHigh (compute_solution s) = Fin TH
         \<and> hits (velocity s) GRAVITY_F (sDist (compute_solution s)) (\<theta>H * PI_F / 180) TH"
proof -
  let ?d = "distance (userPos s) (targetPos s)" and ?v = "velocity s"
  have gd: "GRAVITY_F * ?d \<noteq> 0" using distance_pos [OF ne] by simp
  obtain \<theta>L TL where L: "elevation ?d ?v GRAVITY_F False = Fin \<theta>L"
      "timeOfFlight ?d ?v (Fin \<theta>L) GRAVITY_F = Fin TL" "hits ?v GRAVITY_F ?d (\<theta>L * PI_F / 180) TL"
    using elevation_tof_hits [OF gd r, of False] by blast
  obtain \<theta>H TH where H: "elevation ?d ?v GRAVITY_F True = Fin \<theta>H"
      "timeOfFlight ?d ?v (Fin \<theta>H) GRAVITY_F = Fin TH" "hits ?v GRAVITY_F ?d (\<theta>H * PI_F / 180) TH"
    using elevation_tof_hits [OF gd r, of True] by blast
  show ?thesis using set L H by (simp add: compute_solution_def solve_def Let_def)
qed

text \<open>
  C7. When the user and the target are the same point (for instance after
  two clicks on the same pixel), the display shows distance 0 and azimuth 0
  as the spec says, but a right angle for the low arc and NaN for the high
  arc and its time of flight, where the spec requires 0.
\<close>

theorem solution_same_point:
  assumes set: "userSet s \<and> targetSet s" and eq: "userPos s = targetPos s" and v: "velocity s \<noteq> 0"
  shows "sDist (compute_solution s) = 0 \<and> sAz (compute_solution s) = 0
         \<and> elevLow (compute_solution s) = Fin (90 * pi / PI_F)
         \<and> elevHigh (compute_solution s) = NaN \<and> tofHigh (compute_solution s) = NaN"
proof -
  have vv: "0 < velocity s * velocity s" using v by (rule mult_self_pos)
  show ?thesis
    using set eq v vv
    by (simp add: compute_solution_def solve_def azimuth_same_point elevation_def timeOfFlight_NaN Let_def not_less)
qed

subsection \<open>Witnesses\<close>

theorem displayed_solution_hits_witness:
  "\<exists>\<theta>L \<theta>H TL TH.
      elevLow (compute_solution scenario_saved) = Fin \<theta>L \<and> tofLow (compute_solution scenario_saved) = Fin TL
    \<and> hits 300 GRAVITY_F 150 (\<theta>L * PI_F / 180) TL
    \<and> elevHigh (compute_solution scenario_saved) = Fin \<theta>H \<and> tofHigh (compute_solution scenario_saved) = Fin TH
    \<and> hits 300 GRAVITY_F 150 (\<theta>H * PI_F / 180) TH"
proof -
  have facts: "userSet scenario_saved \<and> targetSet scenario_saved" "userPos scenario_saved \<noteq> targetPos scenario_saved"
    "0 \<le> discr (distance (userPos scenario_saved) (targetPos scenario_saved)) (velocity scenario_saved) GRAVITY_F"
    "velocity scenario_saved = 300"
    by (simp_all add: scenario_saved_distance) (simp_all add: scenario_saved_eval init_app_def
        VELOCITY_INIT_def discr_def GRAVITY_F_def)
  have "sDist (compute_solution scenario_saved) = 150"
    using facts(1) by (simp add: compute_solution_def solve_def Let_def scenario_saved_distance)
  then show ?thesis using displayed_solution_hits [OF facts(1-3)] facts(4) by simp
qed

theorem solution_same_point_witness:
  "sDist (compute_solution (init_app\<lparr>userSet := True, targetSet := True\<rparr>)) = 0
   \<and> sAz (compute_solution (init_app\<lparr>userSet := True, targetSet := True\<rparr>)) = 0
   \<and> elevLow (compute_solution (init_app\<lparr>userSet := True, targetSet := True\<rparr>)) = Fin (90 * pi / PI_F)
   \<and> elevHigh (compute_solution (init_app\<lparr>userSet := True, targetSet := True\<rparr>)) = NaN
   \<and> tofHigh (compute_solution (init_app\<lparr>userSet := True, targetSet := True\<rparr>)) = NaN"
  by (rule solution_same_point) (simp_all add: init_app_def VELOCITY_INIT_def)

theorem reachable_names_nonempty_witness: "names_nonempty scenario_saved"
  by (rule reachable_names_nonempty [OF reachable_scenario_saved])

theorem reachable_trps_positions_set_witness: "userSet scenario_saved \<and> targetSet scenario_saved"
  by (rule reachable_trps_positions_set [OF reachable_scenario_saved]) (simp add: scenario_saved_eval)

theorem reachable_view_size_pos_witness: "view_size_pos (mapView scenario_saved)"
  by (rule reachable_view_size_pos [OF reachable_scenario_saved])

theorem reachable_name_length_witness: "length (trpName scenario_saved) \<le> 63"
  by (rule reachable_name_length [OF reachable_scenario_saved])

theorem save_then_recall_witness:
  "let s1 = handle_events [] scenario_named;
       s2 = snd (frame [] (ClickTRP (length (trps scenario_named))) (snd (frame [] ClickSave scenario_named)))
   in userPos s2 = userPos s1 \<and> targetPos s2 = targetPos s1 \<and> userSet s2 \<and> targetSet s2"
  by (rule save_then_recall) (simp add: scenario_named_eval init_app_def)

theorem press_left_sets_user_witness:
  "userPos (handle_event (20, 140) (MouseButtonPressed Left) init_app)
     = mapPixelToCoords (winSize init_app) (20, 140) (mapView init_app)
   \<and> userSet (handle_event (20, 140) (MouseButtonPressed Left) init_app)"
  by (rule press_left_sets_user) (simp add: in_map_area_def)

theorem press_outside_ignored_witness:
  "handle_event (700, 100) (MouseButtonPressed Left) init_app = init_app"
  by (rule press_outside_ignored) (simp add: in_map_area_def)

theorem drag_keeps_cursor_point_witness:
  "mapPixelToCoords (WIN_W, WIN_H) (150, 120)
     (mapView (handle_event (150, 120) MouseMoved (init_app\<lparr>dragging := True, lastDrag := (100, 100)\<rparr>)))
   = mapPixelToCoords (WIN_W, WIN_H) (100, 100) (mapView init_app)"
  using drag_keeps_cursor_point [of "init_app\<lparr>dragging := True, lastDrag := (100, 100)\<rparr>" "(150, 120)"]
  by (simp add: init_app_def)

theorem zoom_in_out_shrinks_witness:
  "let s' = handle_event (100, 100) (MouseWheelScrolled (-1) 100 100)
              (handle_event (100, 100) (MouseWheelScrolled 1 100 100) init_app)
   in viewCenter (mapView s') = viewCenter (mapView init_app)
      \<and> fst (viewSize (mapView s')) < fst (viewSize (mapView init_app))
      \<and> snd (viewSize (mapView s')) < snd (viewSize (mapView init_app))"
  by (rule zoom_in_out_shrinks) (simp_all add: init_app_def view_size_pos_initial)

theorem closed_drops_events_witness:
  "handle_events [((0, 0), Closed), ((20, 140), MouseButtonPressed Left)] init_app
   = init_app\<lparr>windowOpen := False\<rparr>"
  by (rule closed_drops_events) (simp add: init_app_def)

theorem solution_unset_witness: "compute_solution init_app = zero_solution"
  by (rule solution_unset) (simp add: init_app_def)

theorem recall_shown_next_frame_witness:
  "fst (frame [] NoAction (snd (frame [] (ClickTRP 0) scenario_saved))) = solve (10, 120) (100, 240) 300"
proof -
  have "0 < length (trps scenario_saved)" by (simp add: scenario_saved_eval)
  from recall_shown_next_frame [OF this, of NoAction "[]"] show ?thesis
    by (simp add: scenario_saved_eval init_app_def VELOCITY_INIT_def)
qed

theorem click_marker_at_pixel_witness:
  "SEllipse (20, 140) (marker_radii (winSize init_app) (mapView init_app)) BLUE
   \<in> set (screen (snd (frame [((20, 140), MouseButtonPressed Left)] NoAction init_app)))"
proof -
  have h: "windowOpen init_app" "in_map_area (20, 140)" "win_size_pos (winSize init_app)"
    "view_size_pos (mapView init_app)" "\<And>i. NoAction \<noteq> ClickTRP i"
    by (simp_all add: init_app_def in_map_area_def win_size_pos_def WIN_W_def WIN_H_def view_size_pos_initial)
  from click_marker_at_pixel [OF h] show ?thesis by simp
qed

theorem reachable_markers_window_aspect_witness:
  "SEllipse (20, 140) (16, 28 / 3) BLUE \<in> set (screen scenario_saved)
   \<and> fst (16::real, 28 / 3::real) / snd (16::real, 28 / 3::real)
       = fst (winSize scenario_saved) / snd (winSize scenario_saved)"
proof -
  have m: "SEllipse (20, 140) (16, 28 / 3) BLUE \<in> set (screen scenario_saved)"
    by (simp add: screen_def draw_frame_def marker_def scenario_saved_eval init_app_def initial_view_def
        world_to_pixel_def WIN_W_def WIN_H_def MARKER_R_def default_view_def)
  have w: "win_size_pos (winSize scenario_saved)"
    by (simp add: scenario_saved_eval init_app_def win_size_pos_def WIN_W_def WIN_H_def)
  show ?thesis using m reachable_markers_window_aspect [OF reachable_scenario_saved w m] by simp
qed

theorem out_of_range_display_witness:
  "hd (panel_text (solve (0, 0) (0, 100000) 300)) = ''Elevation: 0.00 (low) / 0.00 (high)''"
proof -
  have "sqrt (10000000000::real) = sqrt (100000\<^sup>2)" by simp
  then have "distance (0, 0) (0, 100000) = 100000" by (simp add: distance_def hypot_def)
  then show ?thesis by (intro out_of_range_display) (simp add: discr_def GRAVITY_F_def)
qed

end
